theory Spec2Isabelle
  imports Main
begin

section \<open>Data model of script.js\<close>

text \<open>
  The script is a set of callbacks over a handful of global variables, the PeerJS
  objects it holds (one \<open>Peer\<close>, any number of media calls) and the browser's
  timers.  The model is a record of the globals, a store of the call and track objects
  (shared references become indices into the store), the list of pending timers with
  their due times in milliseconds, and a log of the calls made into the PeerJS library.
  Every callback of the script is a function from state to state; the environment
  (user, signaling server, remote peer, clock) chooses which callback runs next.

  Of the page, the model keeps what the callbacks read or what tells a session's state:
  the remote and local video elements' \<open>srcObject\<close>, the peer-id input, the status
  line (text and class), the displayed room id, the end-call button's \<open>disabled\<close>
  flag and the notification.  Button labels, the \<open>disabled\<close> flags of the other
  buttons, console output, \<open>remoteVideo.play()\<close> and the \<open>beforeunload\<close> handler
  are left out.  One time-unit of the specification is 1000 ms.
\<close>

datatype kind = Audio | Video

record track =
  kind :: kind
  enabled :: bool

text \<open>A local \<open>MediaStream\<close> is the list of its tracks (indices into the track store);
  a remote stream is owned by the remote side and is carried by value.\<close>

type_synonym stream = "nat list"
type_synonym remote_stream = "track list"

text \<open>A JavaScript string is a sequence of UTF-16 code units.  The peer-id input, which
  the script trims, and the remote identifiers derived from it are modelled so; text that
  the script only stores, concatenates or tests for emptiness (messages, the own
  identifier) is a \<open>string\<close>.  \<open>js\<close> reads an ASCII literal as a JavaScript string.\<close>

type_synonym js_string = "int list"

definition js :: "string \<Rightarrow> js_string" where
  "js = map of_char"

datatype ice = IceNew | IceChecking | IceConnected | IceCompleted | IceFailed
  | IceDisconnected | IceClosed

record pconn =
  iceConnectionState :: ice
  hasGetSenders :: bool
  senders :: "nat option list"

record call_obj =
  remote :: js_string
  closed :: bool
  timestamp :: "int option"
  peerConnection :: "pconn option"
  outbound :: stream

record peer_obj =
  peer_id :: "string option"
  disconnected :: bool

datatype severity = SevInfo | SevSuccess | SevError

datatype status_class = NoClass | StatusConnecting | StatusConnected | StatusDisconnected

text \<open>One constructor per \<open>setTimeout\<close>/\<open>setInterval\<close> site of the script; the
  arguments are the variables the callback closes over.\<close>

datatype task =
    HideNotification
  | Reconnect
  | Reinitialize
  | RetryConnect
  | ConnectionTimeout nat
  | ConnectionCheck nat
  | StallRedial js_string
  | ReplaceRedial js_string
  | CheckConnectivity

datatype libcall =
    LibDestroy
  | LibNewPeer
  | LibReconnect
  | LibCall js_string
  | LibAnswer nat
  | LibClose nat
  | LibReplaceTrack nat nat nat

record state =
  now :: int
  online :: bool
  tracks :: "track list"
  calls :: "call_obj list"
  localStream :: "stream option"
  originalStream :: "stream option"
  peer :: "peer_obj option"
  currentCall :: "nat option"
  isAudioMuted :: bool
  isVideoOff :: bool
  isScreenSharing :: bool
  reconnectAttempts :: nat
  localVideo :: "stream option"
  remoteVideo :: "remote_stream option"
  peerIdInput :: js_string
  roomId :: string
  statusText :: string
  statusClass :: status_class
  endCallDisabled :: bool
  notifications :: "(string \<times> severity) list"
  notificationShown :: bool
  timers :: "(int \<times> task) list"
  pendingReplace :: "(nat \<times> nat \<times> nat) list"
  screenTracks :: "nat list"
  listening :: bool
  libLog :: "libcall list"

text \<open>What the environment decides inside a callback: whether \<open>close()\<close> on a handle
  emits its \<open>close\<close> event synchronously, before \<open>close()\<close> returns (PeerJS does so
  for a handle that was answered, and not for one that was not), and whether
  \<open>peer.call\<close> returns a handle.\<close>

record env =
  emitsClose :: bool
  callSucceeds :: bool

datatype media_result = MediaGranted | MediaNotAllowed | MediaNotFound | MediaFailed string

datatype display_result = DisplayGranted | DisplayNotAllowed | DisplayFailed string

datatype peer_error = PeerUnavailable | NetworkError | ServerError | BrowserIncompatible
  | SocketError | SocketClosed | OtherError

definition MAX_RECONNECT_ATTEMPTS :: nat where
  "MAX_RECONNECT_ATTEMPTS = 3"

section \<open>Helpers: store lookups, timers, strings\<close>

definition lookup :: "'a list \<Rightarrow> nat \<Rightarrow> 'a option" where
  "lookup xs i = (if i < length xs then Some (xs ! i) else None)"

definition tracks_of_kind :: "track list \<Rightarrow> kind \<Rightarrow> stream \<Rightarrow> stream" where
  "tracks_of_kind ts k st = filter (\<lambda>i. map_option kind (lookup ts i) = Some k) st"

definition set_enabled :: "nat \<Rightarrow> bool \<Rightarrow> track list \<Rightarrow> track list" where
  "set_enabled i b ts = (if i < length ts then ts[i := (ts ! i)\<lparr>enabled := b\<rparr>] else ts)"

definition clearTimer :: "task \<Rightarrow> (int \<times> task) list \<Rightarrow> (int \<times> task) list" where
  "clearTimer t tm = filter (\<lambda>(d, t'). t' \<noteq> t) tm"

definition setTimer :: "int \<Rightarrow> task \<Rightarrow> state \<Rightarrow> state" where
  "setTimer delay t s = s\<lparr>timers := timers s @ [(now s + delay, t)]\<rparr>"

definition dues :: "task \<Rightarrow> state \<Rightarrow> int list" where
  "dues t s = map fst (filter (\<lambda>(d, t'). t' = t) (timers s))"

text \<open>\<open>String.prototype.trim\<close> removes the white space and the line terminators of
  ECMAScript from both ends: TAB, LF, VT, FF, CR, SPACE, U+00A0, U+1680, U+2000 to U+200A,
  U+2028, U+2029, U+202F, U+205F, U+3000 and U+FEFF.\<close>

definition is_ws :: "int \<Rightarrow> bool" where
  "is_ws c =
     (c \<in> {0x09, 0x0A, 0x0B, 0x0C, 0x0D, 0x20, 0xA0, 0x1680, 0x2028, 0x2029, 0x202F, 0x205F,
            0x3000, 0xFEFF} \<or>
      (0x2000 \<le> c \<and> c \<le> 0x200A))"

definition trim :: "js_string \<Rightarrow> js_string" where
  "trim x = rev (dropWhile is_ws (rev (dropWhile is_ws x)))"

definition has_id :: "peer_obj \<Rightarrow> bool" where
  "has_id p = (case peer_id p of None \<Rightarrow> False | Some i \<Rightarrow> i \<noteq> [])"

fun enable_first :: "kind \<Rightarrow> remote_stream \<Rightarrow> remote_stream" where
  "enable_first k [] = []"
| "enable_first k (t # ts) =
     (if kind t = k then t\<lparr>enabled := True\<rparr> # ts else t # enable_first k ts)"

section \<open>The PeerJS operations the script calls\<close>

text \<open>
  Modelled from the spec: the PeerJS library, which is not part of the repository.  Its
  operations follow the contracts of sections 4.1 and 6 of the specification:
  \<open>close()\<close> tears the handle down and is safe to repeat, \<open>peer.call\<close> needs a
  stream and may return no handle, \<open>destroy\<close>, the \<open>Peer\<close> constructor,
  \<open>answer\<close>, \<open>reconnect\<close> and \<open>replaceTrack\<close> are recorded in the log and do
  not throw, so the \<open>catch\<close> blocks that only guard them have no branch in the model.
  A handle is closed where the script calls \<open>close()\<close> and where the remote side
  hangs up; that \<open>destroy\<close> also releases the handles of the old registration is
  not modelled.
\<close>

definition showNotification :: "string \<Rightarrow> severity \<Rightarrow> state \<Rightarrow> state" where
  "showNotification msg ty s =
     setTimer 5000 HideNotification
       (s\<lparr>notifications := notifications s @ [(msg, ty)], notificationShown := True\<rparr>)"

text \<open>handleCallStream arms the connection timeout and the health-check interval of a
  call; its \<open>stream\<close>, \<open>close\<close> and \<open>error\<close> handlers are \<open>on_stream\<close>,
  \<open>on_close\<close> and \<open>on_call_error\<close> below.\<close>

definition handleCallStream :: "nat \<Rightarrow> state \<Rightarrow> state" where
  "handleCallStream c s = setTimer 5000 (ConnectionCheck c) (setTimer 30000 (ConnectionTimeout c) s)"

definition on_close :: "nat \<Rightarrow> state \<Rightarrow> state" where
  "on_close c s =
     showNotification ''Call ended'' SevInfo
       (s\<lparr>timers := clearTimer (ConnectionTimeout c) (timers s),
          statusText := ''Call ended'', statusClass := StatusDisconnected,
          remoteVideo := None, currentCall := None, endCallDisabled := True\<rparr>)"

text \<open>Modelled from the spec: \<open>call.close()\<close>.  The first call on an open handle
  closes it, and the library may emit \<open>close\<close> before returning; a repeated call
  changes nothing.\<close>

definition call_close :: "env \<Rightarrow> nat \<Rightarrow> state \<Rightarrow> state" where
  "call_close e c s =
     (let s1 = s\<lparr>libLog := libLog s @ [LibClose c]\<rparr> in
      case lookup (calls s1) c of
        None \<Rightarrow> s1
      | Some co \<Rightarrow>
          if closed co then s1
          else let s2 = s1\<lparr>calls := (calls s1)[c := co\<lparr>closed := True\<rparr>]\<rparr>
               in if emitsClose e then on_close c s2 else s2)"

text \<open>Modelled from the spec: the remote side hangs up; the library closes the handle and
  emits \<open>close\<close>.\<close>

definition on_remote_close :: "nat \<Rightarrow> state \<Rightarrow> state" where
  "on_remote_close c s =
     (case lookup (calls s) c of
        None \<Rightarrow> s
      | Some co \<Rightarrow>
          if closed co then s
          else on_close c (s\<lparr>calls := (calls s)[c := co\<lparr>closed := True\<rparr>]\<rparr>))"

text \<open>Modelled from the spec: \<open>peer.call(peerId, localStream, options)\<close>.  A new
  handle is a fresh entry of the call store; \<open>ts\<close> is the timestamp of the metadata,
  if any was passed.\<close>

definition peer_call :: "env \<Rightarrow> js_string \<Rightarrow> int option \<Rightarrow> state \<Rightarrow> nat option \<times> state" where
  "peer_call e pid ts s =
     (let s1 = s\<lparr>libLog := libLog s @ [LibCall pid]\<rparr> in
      case localStream s1 of
        None \<Rightarrow> (None, s1)
      | Some st \<Rightarrow>
          if callSucceeds e
          then (Some (length (calls s1)),
                s1\<lparr>calls := calls s1 @
                   [\<lparr>remote = pid, closed = False, timestamp = ts,
                     peerConnection = None, outbound = st\<rparr>]\<rparr>)
          else (None, s1))"

section \<open>Signaling: initializePeerConnection and the Peer's event handlers\<close>

definition initializePeerConnection :: "state \<Rightarrow> state" where
  "initializePeerConnection s =
     s\<lparr>peer := Some \<lparr>peer_id = None, disconnected = False\<rparr>,
       libLog := libLog s @ (if peer s = None then [] else [LibDestroy]) @ [LibNewPeer]\<rparr>"

text \<open>Each handler below is the callback of one \<open>peer.on\<close>; the first update of
  \<open>on_peer_open\<close> and of \<open>on_peer_disconnected\<close> is what the library has done to the
  \<open>Peer\<close> object when it emits the event.\<close>

definition on_peer_open :: "string \<Rightarrow> state \<Rightarrow> state" where
  "on_peer_open ident s =
     s\<lparr>peer := map_option (\<lambda>p. p\<lparr>peer_id := Some ident, disconnected := False\<rparr>) (peer s),
       roomId := ident, statusText := ''Ready to connect'', statusClass := NoClass,
       reconnectAttempts := 0\<rparr>"

definition on_peer_call :: "js_string \<Rightarrow> int option \<Rightarrow> state \<Rightarrow> state" where
  "on_peer_call rid ts s =
     (let s1 = showNotification ''Incoming call'' SevInfo
                 (s\<lparr>statusText := ''Incoming call...'', statusClass := StatusConnecting\<rparr>);
          c = length (calls s1);
          s2 = s1\<lparr>calls := calls s1 @
                  [\<lparr>remote = rid, closed = False, timestamp = ts, peerConnection = None,
                    outbound = (case localStream s1 of None \<Rightarrow> [] | Some st \<Rightarrow> st)\<rparr>],
                  libLog := libLog s1 @ [LibAnswer c]\<rparr>
      in handleCallStream c (s2\<lparr>currentCall := Some c, endCallDisabled := False\<rparr>))"

definition on_peer_disconnected :: "state \<Rightarrow> state" where
  "on_peer_disconnected s =
     setTimer 2000 Reconnect
       (s\<lparr>peer := map_option (\<lambda>p. p\<lparr>disconnected := True\<rparr>) (peer s),
          statusText := ''Connection lost. Attempting to reconnect...'',
          statusClass := StatusDisconnected\<rparr>)"

definition reconnect_cb :: "state \<Rightarrow> state" where
  "reconnect_cb s =
     (if reconnectAttempts s < MAX_RECONNECT_ATTEMPTS
      then s\<lparr>reconnectAttempts := reconnectAttempts s + 1, libLog := libLog s @ [LibReconnect]\<rparr>
      else showNotification ''Connection failed. Please refresh the page.'' SevError
             (s\<lparr>statusText :=
                  ''Could not reconnect after multiple attempts. Please refresh the page.''\<rparr>))"

definition on_peer_close :: "state \<Rightarrow> state" where
  "on_peer_close s =
     s\<lparr>statusText := ''Connection closed'', statusClass := StatusDisconnected,
       endCallDisabled := True\<rparr>"

definition error_message :: "peer_error \<Rightarrow> string" where
  "error_message k =
     (case k of
        PeerUnavailable \<Rightarrow> ''Peer not found. Check the ID and try again.''
      | NetworkError \<Rightarrow> ''Network error. Please check your connection.''
      | ServerError \<Rightarrow> ''Server error. Please try again later.''
      | BrowserIncompatible \<Rightarrow>
          ''Your browser may not fully support WebRTC. Try using Chrome or Firefox.''
      | SocketError \<Rightarrow> ''Socket connection error. Please refresh and try again.''
      | SocketClosed \<Rightarrow> ''Connection to server lost. Attempting to reconnect...''
      | OtherError \<Rightarrow> ''Connection error'')"

definition on_peer_error :: "peer_error \<Rightarrow> state \<Rightarrow> state" where
  "on_peer_error k s =
     (let s1 = (if k = SocketError \<or> k = SocketClosed then setTimer 3000 Reinitialize s else s);
          s2 = showNotification (error_message k) SevError
                 (s1\<lparr>statusText := error_message k, statusClass := StatusDisconnected\<rparr>)
      in case currentCall s2 of
           None \<Rightarrow> s2
         | Some c \<Rightarrow> s2\<lparr>currentCall := None, remoteVideo := None, endCallDisabled := True\<rparr>)"

section \<open>Dialing: connectToPeer\<close>

definition peer_ready :: "state \<Rightarrow> bool" where
  "peer_ready s = (case peer s of None \<Rightarrow> False | Some p \<Rightarrow> has_id p)"

definition connect_failed :: "string \<Rightarrow> state \<Rightarrow> state" where
  "connect_failed msg s =
     showNotification (''Failed to connect: '' @ msg) SevError
       (s\<lparr>statusText := ''Connection failed'', statusClass := StatusDisconnected\<rparr>)"

definition connectToPeer :: "env \<Rightarrow> state \<Rightarrow> state" where
  "connectToPeer e s =
     (let peerId = trim (peerIdInput s) in
      if peerId = [] then showNotification ''Please enter a valid Peer ID'' SevError s
      else
        let s1 = s\<lparr>statusText := ''Connecting...'', statusClass := StatusConnecting\<rparr>;
            s2 = (case currentCall s1 of None \<Rightarrow> s1 | Some c \<Rightarrow> call_close e c s1)
        in if \<not> peer_ready s2
           then setTimer 2000 RetryConnect (initializePeerConnection s2)
           else (case peer_call e peerId (Some (now s2)) s2 of
                   (None, s3) \<Rightarrow> connect_failed ''Failed to initiate call'' s3
                 | (Some c, s3) \<Rightarrow>
                     handleCallStream c (s3\<lparr>currentCall := Some c, endCallDisabled := False\<rparr>)))"

section \<open>The callbacks installed by handleCallStream\<close>

definition connectionTimeout_cb :: "env \<Rightarrow> nat \<Rightarrow> state \<Rightarrow> state" where
  "connectionTimeout_cb e c s =
     (if remoteVideo s = None
      then let s1 = showNotification
                      ''Connection timed out. The other user may not be available.'' SevError
                      (s\<lparr>statusText := ''Connection timed out'',
                         statusClass := StatusDisconnected\<rparr>);
               s2 = call_close e c s1
           in s2\<lparr>currentCall := None, endCallDisabled := True\<rparr>
      else s)"

definition on_stream :: "nat \<Rightarrow> remote_stream \<Rightarrow> state \<Rightarrow> state" where
  "on_stream c rs s =
     showNotification ''Call connected successfully'' SevSuccess
       (s\<lparr>timers := clearTimer (ConnectionTimeout c) (timers s),
          remoteVideo := Some (enable_first Audio (enable_first Video rs)),
          statusText := ''Connected'', statusClass := StatusConnected\<rparr>)"

definition call_error_text :: "string \<Rightarrow> string" where
  "call_error_text msg = ''Call error: '' @ (if msg = [] then ''Unknown error'' else msg)"

definition on_call_error :: "nat \<Rightarrow> string \<Rightarrow> state \<Rightarrow> state" where
  "on_call_error c msg s =
     showNotification (call_error_text msg) SevError
       (s\<lparr>timers := clearTimer (ConnectionTimeout c) (timers s),
          statusText := call_error_text msg, statusClass := StatusDisconnected,
          remoteVideo := None, currentCall := None, endCallDisabled := True\<rparr>)"

definition stalled :: "nat \<Rightarrow> state \<Rightarrow> bool" where
  "stalled c s =
     (remoteVideo s = None \<and>
      (case lookup (calls s) c of
         None \<Rightarrow> False
       | Some co \<Rightarrow> (case timestamp co of None \<Rightarrow> False | Some ts \<Rightarrow> now s - ts > 10000)))"

definition ice_failed :: "nat \<Rightarrow> state \<Rightarrow> bool" where
  "ice_failed c s =
     (case lookup (calls s) c of
        None \<Rightarrow> False
      | Some co \<Rightarrow>
          (case peerConnection co of None \<Rightarrow> False | Some pc \<Rightarrow> iceConnectionState pc = IceFailed))"

definition remote_of :: "nat \<Rightarrow> state \<Rightarrow> js_string" where
  "remote_of c s = (case lookup (calls s) c of None \<Rightarrow> [] | Some co \<Rightarrow> remote co)"

definition connectionCheck_cb :: "env \<Rightarrow> nat \<Rightarrow> state \<Rightarrow> state" where
  "connectionCheck_cb e c s =
     (if currentCall s \<noteq> Some c
      then s\<lparr>timers := clearTimer (ConnectionCheck c) (timers s)\<rparr>
      else if stalled c s \<and> ice_failed c s
      then let s1 = showNotification ''Connection problem detected. Trying to reconnect...''
                      SevError s;
               peerId = remote_of c s1;
               s2 = call_close e c s1;
               s3 = setTimer 2000 (StallRedial peerId) s2
           in s3\<lparr>timers := clearTimer (ConnectionCheck c) (timers s3)\<rparr>
      else s)"

definition stall_redial_cb :: "env \<Rightarrow> js_string \<Rightarrow> state \<Rightarrow> state" where
  "stall_redial_cb e peerId s =
     (if peer_ready s
      then (case peer_call e peerId None s of
              (None, s1) \<Rightarrow> s1
            | (Some c, s1) \<Rightarrow> handleCallStream c (s1\<lparr>currentCall := Some c\<rparr>))
      else s)"

section \<open>Track toggles\<close>

definition toggleAudio :: "state \<Rightarrow> state" where
  "toggleAudio s =
     (case localStream s of
        None \<Rightarrow> s
      | Some st \<Rightarrow>
          (case tracks_of_kind (tracks s) Audio st of
             [] \<Rightarrow> showNotification ''No audio track found'' SevError s
           | t # _ \<Rightarrow>
               let m = \<not> isAudioMuted s
               in showNotification (if m then ''Audio muted'' else ''Audio unmuted'') SevInfo
                    (s\<lparr>isAudioMuted := m, tracks := set_enabled t (\<not> m) (tracks s)\<rparr>)))"

definition toggleVideo :: "state \<Rightarrow> state" where
  "toggleVideo s =
     (case localStream s of
        None \<Rightarrow> s
      | Some st \<Rightarrow>
          (case tracks_of_kind (tracks s) Video st of
             [] \<Rightarrow> showNotification ''No video track found'' SevError s
           | t # _ \<Rightarrow>
               let m = \<not> isVideoOff s
               in showNotification (if m then ''Video stopped'' else ''Video started'') SevInfo
                    (s\<lparr>isVideoOff := m, tracks := set_enabled t (\<not> m) (tracks s)\<rparr>)))"

section \<open>Switching the media source: toggleScreenShare\<close>

definition replaceCallWithNewStream :: "env \<Rightarrow> state \<Rightarrow> state" where
  "replaceCallWithNewStream e s =
     (case currentCall s of
        None \<Rightarrow> s
      | Some c \<Rightarrow> setTimer 1000 (ReplaceRedial (remote_of c s)) (call_close e c s))"

definition replace_failed :: "state \<Rightarrow> state" where
  "replace_failed s =
     showNotification ''Failed to update call. Please reconnect.'' SevError
       (s\<lparr>statusText := ''Failed to update call with screen share'',
          statusClass := StatusDisconnected\<rparr>)"

definition replace_redial_cb :: "env \<Rightarrow> js_string \<Rightarrow> state \<Rightarrow> state" where
  "replace_redial_cb e peerId s =
     (case peer s of
        None \<Rightarrow> replace_failed s
      | Some p \<Rightarrow>
          (case peer_call e peerId None s of
             (None, s1) \<Rightarrow> replace_failed s1
           | (Some c, s1) \<Rightarrow> handleCallStream c (s1\<lparr>currentCall := Some c\<rparr>)))"

fun find_video_sender :: "track list \<Rightarrow> nat option list \<Rightarrow> nat \<Rightarrow> nat option" where
  "find_video_sender ts [] k = None"
| "find_video_sender ts (x # xs) k =
     (if (case x of None \<Rightarrow> False | Some t \<Rightarrow> map_option kind (lookup ts t) = Some Video)
      then Some k else find_video_sender ts xs (Suc k))"

text \<open>The senders of the current call, when \<open>currentCall.peerConnection\<close> exists and
  has a \<open>getSenders\<close> function.\<close>

definition current_senders :: "nat \<Rightarrow> state \<Rightarrow> nat option list option" where
  "current_senders c s =
     (case lookup (calls s) c of
        None \<Rightarrow> None
      | Some co \<Rightarrow>
          (case peerConnection co of
             None \<Rightarrow> None
           | Some pc \<Rightarrow> if hasGetSenders pc then Some (senders pc) else None))"

definition flip_sharing :: "state \<Rightarrow> state" where
  "flip_sharing s = s\<lparr>isScreenSharing := \<not> isScreenSharing s\<rparr>"

text \<open>The part of toggleScreenShare after the local stream has been switched
  (lines 484 to 528).  The in-place branch returns before the flag is flipped.\<close>

definition update_call :: "env \<Rightarrow> state \<Rightarrow> state" where
  "update_call e s0 =
     (let s = s0\<lparr>localVideo := localStream s0\<rparr> in
      case currentCall s of
        None \<Rightarrow> flip_sharing s
      | Some c \<Rightarrow>
          (case current_senders c s of
             None \<Rightarrow> flip_sharing (replaceCallWithNewStream e s)
           | Some sds \<Rightarrow>
               (case find_video_sender (tracks s) sds 0 of
                  None \<Rightarrow> flip_sharing (replaceCallWithNewStream e s)
                | Some k \<Rightarrow>
                    (case localStream s of
                       None \<Rightarrow>
                         flip_sharing
                           (showNotification ''Failed to update call with screen sharing''
                              SevError s)
                     | Some st \<Rightarrow>
                         (case tracks_of_kind (tracks s) Video st of
                            [] \<Rightarrow> flip_sharing (replaceCallWithNewStream e s)
                          | t # _ \<Rightarrow>
                              s\<lparr>pendingReplace := pendingReplace s @ [(c, k, t)],
                                libLog := libLog s @ [LibReplaceTrack c k t]\<rparr>)))))"

definition share_error :: "string \<Rightarrow> state \<Rightarrow> state" where
  "share_error msg s = showNotification (''Screen sharing error: '' @ msg) SevError s"

text \<open>The first part of toggleScreenShare (lines 447 to 482): the local stream is
  switched, or \<open>getDisplayMedia\<close> rejects and the error is thrown to the outer
  \<open>catch\<close> (\<open>Inl\<close> of its message).  A granted screen capture is a fresh stream
  with one enabled video track, to which the first audio track of the camera stream is
  added.\<close>

definition switch_source :: "display_result \<Rightarrow> state \<Rightarrow> string + state" where
  "switch_source d s =
     (if isScreenSharing s
      then Inr (showNotification ''Screen sharing stopped'' SevInfo
                  (s\<lparr>localStream := originalStream s\<rparr>))
      else (case d of
              DisplayNotAllowed \<Rightarrow> Inl ''Screen sharing permission denied''
            | DisplayFailed msg \<Rightarrow> Inl msg
            | DisplayGranted \<Rightarrow>
                let v = length (tracks s);
                    graft = (case originalStream s of
                               None \<Rightarrow> []
                             | Some os \<Rightarrow> take 1 (tracks_of_kind (tracks s) Audio os));
                    s1 = s\<lparr>tracks := tracks s @ [\<lparr>kind = Video, enabled = True\<rparr>],
                           localStream := Some (v # graft),
                           screenTracks := screenTracks s @ [v]\<rparr>
                in Inr (showNotification ''Screen sharing started'' SevSuccess s1)))"

definition toggleScreenShare :: "env \<Rightarrow> display_result \<Rightarrow> state \<Rightarrow> state" where
  "toggleScreenShare e d s =
     (case switch_source d s of
        Inl msg \<Rightarrow> share_error msg s
      | Inr s1 \<Rightarrow> update_call e s1)"

definition set_sender :: "nat \<Rightarrow> nat \<Rightarrow> nat \<Rightarrow> call_obj list \<Rightarrow> call_obj list" where
  "set_sender c k t cs =
     (case lookup cs c of
        None \<Rightarrow> cs
      | Some co \<Rightarrow>
          (case peerConnection co of
             None \<Rightarrow> cs
           | Some pc \<Rightarrow>
               cs[c := co\<lparr>peerConnection := Some (pc\<lparr>senders := (senders pc)[k := Some t]\<rparr>)\<rparr>]))"

text \<open>The promise returned by \<open>replaceTrack\<close> settles later: fulfilled, the sender
  carries the new track and a notification is shown; rejected, the script falls back to
  replaceCallWithNewStream.\<close>

definition replace_settled :: "env \<Rightarrow> bool \<Rightarrow> state \<Rightarrow> state" where
  "replace_settled e ok s =
     (case pendingReplace s of
        [] \<Rightarrow> s
      | (c, k, t) # rest \<Rightarrow>
          let s1 = s\<lparr>pendingReplace := rest\<rparr>
          in if ok
             then showNotification ''Media updated successfully'' SevSuccess
                    (s1\<lparr>calls := set_sender c k t (calls s1)\<rparr>)
             else replaceCallWithNewStream e s1)"

section \<open>endCall, checkConnectivity, init\<close>

definition endCall :: "env \<Rightarrow> state \<Rightarrow> state" where
  "endCall e s =
     (case currentCall s of
        None \<Rightarrow> s
      | Some c \<Rightarrow>
          showNotification ''Call ended'' SevInfo
            ((call_close e c s)\<lparr>currentCall := None, remoteVideo := None,
               statusText := ''Call ended'', statusClass := StatusDisconnected,
               endCallDisabled := True\<rparr>))"

definition peer_healthy :: "state \<Rightarrow> bool" where
  "peer_healthy s = (case peer s of None \<Rightarrow> False | Some p \<Rightarrow> \<not> disconnected p \<and> has_id p)"

definition checkConnectivity :: "state \<Rightarrow> state" where
  "checkConnectivity s =
     (if \<not> online s
      then showNotification ''Internet connection lost'' SevError
             (s\<lparr>statusText := ''You are offline. Please check your internet connection.'',
                statusClass := StatusDisconnected\<rparr>)
      else if peer_healthy s then s
      else initializePeerConnection s)"

definition init_failed :: "string \<Rightarrow> state \<Rightarrow> state" where
  "init_failed msg s =
     showNotification msg SevError
       (s\<lparr>statusText := ''Error: '' @ msg, statusClass := StatusDisconnected\<rparr>)"

definition init :: "media_result \<Rightarrow> state \<Rightarrow> state" where
  "init m s0 =
     (let s = s0\<lparr>statusText := ''Requesting camera and microphone access...''\<rparr> in
      case m of
        MediaNotAllowed \<Rightarrow>
          init_failed
            ''Camera and microphone access denied. Please allow access to use this app.'' s
      | MediaNotFound \<Rightarrow>
          init_failed
            ''No camera or microphone found. Please check your device connections.'' s
      | MediaFailed msg \<Rightarrow> init_failed msg s
      | MediaGranted \<Rightarrow>
          let a = length (tracks s);
              st = [a, Suc a];
              s1 = s\<lparr>tracks := tracks s @
                        [\<lparr>kind = Audio, enabled = True\<rparr>, \<lparr>kind = Video, enabled = True\<rparr>],
                     localStream := Some st, originalStream := Some st, localVideo := Some st,
                     statusText := ''Initializing connection...''\<rparr>
          in showNotification ''Video call app initialized successfully'' SevSuccess
               ((initializePeerConnection s1)\<lparr>listening := True\<rparr>))"

text \<open>The state when the script has been evaluated at time \<open>t0\<close>: the globals have
  their initial values and the connectivity interval of line 613 is armed.\<close>

definition page_load :: "int \<Rightarrow> state" where
  "page_load t0 =
     \<lparr>now = t0, online = True, tracks = [], calls = [], localStream = None,
      originalStream = None, peer = None, currentCall = None, isAudioMuted = False,
      isVideoOff = False, isScreenSharing = False, reconnectAttempts = 0,
      localVideo = None, remoteVideo = None, peerIdInput = [], roomId = [],
      statusText = [], statusClass = NoClass, endCallDisabled = True,
      notifications = [], notificationShown = False,
      timers = [(t0 + 10000, CheckConnectivity)], pendingReplace = [], screenTracks = [],
      listening = False, libLog = []\<rparr>"

section \<open>Timers and the event loop\<close>

definition period :: "task \<Rightarrow> int option" where
  "period t = (case t of ConnectionCheck c \<Rightarrow> Some 5000 | CheckConnectivity \<Rightarrow> Some 10000
               | _ \<Rightarrow> None)"

definition run_task :: "env \<Rightarrow> task \<Rightarrow> state \<Rightarrow> state" where
  "run_task e t s =
     (case t of
        HideNotification \<Rightarrow> s\<lparr>notificationShown := False\<rparr>
      | Reconnect \<Rightarrow> reconnect_cb s
      | Reinitialize \<Rightarrow> initializePeerConnection s
      | RetryConnect \<Rightarrow> connectToPeer e s
      | ConnectionTimeout c \<Rightarrow> connectionTimeout_cb e c s
      | ConnectionCheck c \<Rightarrow> connectionCheck_cb e c s
      | StallRedial p \<Rightarrow> stall_redial_cb e p s
      | ReplaceRedial p \<Rightarrow> replace_redial_cb e p s
      | CheckConnectivity \<Rightarrow> checkConnectivity s)"

text \<open>A timer fires only once it is due.  A timeout is removed when it fires; an interval
  is re-armed one period after its due time before its callback runs, so that the callback
  can clear it.\<close>

definition fire :: "env \<Rightarrow> task \<Rightarrow> state \<Rightarrow> state" where
  "fire e t s =
     (case find (\<lambda>(d, t'). t' = t \<and> d \<le> now s) (timers s) of
        None \<Rightarrow> s
      | Some (d, _) \<Rightarrow>
          let rest = remove1 (d, t) (timers s);
              tm = (case period t of None \<Rightarrow> rest | Some p \<Rightarrow> rest @ [(d + p, t)])
          in run_task e t (s\<lparr>timers := tm\<rparr>))"

datatype event =
    Load media_result
  | Advance int
  | Fire task
  | Network bool
  | UserInput js_string
  | ClickConnect
  | ClickMute
  | ClickVideo
  | ClickShare display_result
  | ClickEnd
  | ScreenEnded nat
  | ReplaceSettled bool
  | PeerOpen string
  | PeerCall js_string "int option"
  | PeerDisconnected
  | PeerClosed
  | PeerFailed peer_error
  | Transport nat "pconn option"
  | CallStream nat remote_stream
  | CallClosed nat
  | CallFailed nat string

definition set_transport :: "nat \<Rightarrow> pconn option \<Rightarrow> state \<Rightarrow> state" where
  "set_transport c pc s =
     (case lookup (calls s) c of
        None \<Rightarrow> s
      | Some co \<Rightarrow> s\<lparr>calls := (calls s)[c := co\<lparr>peerConnection := pc\<rparr>]\<rparr>)"

text \<open>One event of the event loop.  The clock only moves forward.  The button listeners
  exist once init has installed them, the \<open>Peer\<close> events once a \<open>Peer\<close> exists,
  the events of a call once the call exists.  The \<open>onended\<close> handler of a screen track
  calls toggleScreenShare only while the screen is shared, where no capture is
  requested.\<close>

definition step :: "env \<Rightarrow> event \<Rightarrow> state \<Rightarrow> state" where
  "step e ev s =
     (case ev of
        Load m \<Rightarrow> init m s
      | Advance dt \<Rightarrow> s\<lparr>now := now s + max 0 dt\<rparr>
      | Fire t \<Rightarrow> fire e t s
      | Network b \<Rightarrow> s\<lparr>online := b\<rparr>
      | UserInput txt \<Rightarrow> s\<lparr>peerIdInput := txt\<rparr>
      | ClickConnect \<Rightarrow> (if listening s then connectToPeer e s else s)
      | ClickMute \<Rightarrow> (if listening s then toggleAudio s else s)
      | ClickVideo \<Rightarrow> (if listening s then toggleVideo s else s)
      | ClickShare d \<Rightarrow> (if listening s then toggleScreenShare e d s else s)
      | ClickEnd \<Rightarrow> (if listening s then endCall e s else s)
      | ScreenEnded t \<Rightarrow>
          (if t \<in> set (screenTracks s) \<and> isScreenSharing s
           then toggleScreenShare e DisplayGranted s else s)
      | ReplaceSettled ok \<Rightarrow> replace_settled e ok s
      | PeerOpen ident \<Rightarrow> (if peer s = None then s else on_peer_open ident s)
      | PeerCall rid ts \<Rightarrow> (if peer s = None then s else on_peer_call rid ts s)
      | PeerDisconnected \<Rightarrow> (if peer s = None then s else on_peer_disconnected s)
      | PeerClosed \<Rightarrow> (if peer s = None then s else on_peer_close s)
      | PeerFailed k \<Rightarrow> (if peer s = None then s else on_peer_error k s)
      | Transport c pc \<Rightarrow> set_transport c pc s
      | CallStream c rs \<Rightarrow> (if c < length (calls s) then on_stream c rs s else s)
      | CallClosed c \<Rightarrow> on_remote_close c s
      | CallFailed c msg \<Rightarrow> (if c < length (calls s) then on_call_error c msg s else s))"

fun run :: "(env \<times> event) list \<Rightarrow> state \<Rightarrow> state" where
  "run [] s = s"
| "run ((e, ev) # evs) s = run evs (step e ev s)"

section \<open>Observations used in the statements\<close>

text \<open>\<open>getAudioTracks()[0]\<close> and \<open>getVideoTracks()[0]\<close> of the local stream, and the
  \<open>enabled\<close> flag of that track.\<close>

definition first_track :: "kind \<Rightarrow> state \<Rightarrow> nat option" where
  "first_track k s =
     (case localStream s of
        None \<Rightarrow> None
      | Some st \<Rightarrow> (case tracks_of_kind (tracks s) k st of [] \<Rightarrow> None | t # _ \<Rightarrow> Some t))"

definition track_enabled :: "kind \<Rightarrow> state \<Rightarrow> bool option" where
  "track_enabled k s =
     (case first_track k s of
        None \<Rightarrow> None
      | Some t \<Rightarrow> map_option enabled (lookup (tracks s) t))"

definition quiet :: env where
  "quiet = \<lparr>emitsClose = False, callSucceeds = True\<rparr>"

text \<open>The user stops the camera video and then starts sharing the screen.\<close>

definition video_off_then_share :: state where
  "video_off_then_share =
     run [(quiet, Load MediaGranted), (quiet, ClickVideo), (quiet, ClickShare DisplayGranted)]
       (page_load 0)"

text \<open>The number of \<open>peer.reconnect()\<close> calls made so far, and what is left of the
  reconnection allowance.\<close>

definition reconnects :: "state \<Rightarrow> nat" where
  "reconnects s = length (filter (\<lambda>c. c = LibReconnect) (libLog s))"

definition is_registration :: "event \<Rightarrow> bool" where
  "is_registration ev = (case ev of PeerOpen i \<Rightarrow> True | _ \<Rightarrow> False)"

definition budget :: "state \<Rightarrow> nat" where
  "budget s = reconnects s + (MAX_RECONNECT_ATTEMPTS - reconnectAttempts s)"

text \<open>A registered endpoint, and one signaling disconnect followed two seconds later by
  its reconnect timer.\<close>

definition registered :: state where
  "registered = run [(quiet, Load MediaGranted), (quiet, PeerOpen ''me'')] (page_load 0)"

definition disconnect_cycle :: "(env \<times> event) list" where
  "disconnect_cycle = [(quiet, PeerDisconnected), (quiet, Advance 2000), (quiet, Fire Reconnect)]"

text \<open>A registered endpoint whose signaling connection has lapsed, ten seconds after page
  load; and the same while the browser reports being offline.\<close>

definition lapsed :: state where
  "lapsed =
     run [(quiet, Load MediaGranted), (quiet, PeerOpen ''me''), (quiet, PeerDisconnected),
          (quiet, Advance 10000)] (page_load 0)"

definition offline_unregistered :: state where
  "offline_unregistered =
     run [(quiet, Load MediaGranted), (quiet, PeerOpen ''me''), (quiet, PeerDisconnected),
          (quiet, Network False), (quiet, Advance 10000)] (page_load 0)"

text \<open>The condition under which toggleScreenShare replaces the video track in place
  (lines 492 to 501): the current call has a peer connection with \<open>getSenders\<close>, one of
  its senders carries a video track, and the local stream has a video track.  \<open>fallback\<close>
  is the condition under which it calls replaceCallWithNewStream instead.\<close>

definition inplace :: "state \<Rightarrow> bool" where
  "inplace s =
     (case currentCall s of
        None \<Rightarrow> False
      | Some c \<Rightarrow>
          (case current_senders c s of
             None \<Rightarrow> False
           | Some sds \<Rightarrow>
               (case find_video_sender (tracks s) sds 0 of
                  None \<Rightarrow> False
                | Some k \<Rightarrow> first_track Video s \<noteq> None)))"

definition fallback :: "state \<Rightarrow> bool" where
  "fallback s =
     (case currentCall s of
        None \<Rightarrow> False
      | Some c \<Rightarrow>
          (case current_senders c s of
             None \<Rightarrow> True
           | Some sds \<Rightarrow>
               (case find_video_sender (tracks s) sds 0 of
                  None \<Rightarrow> True
                | Some k \<Rightarrow> localStream s \<noteq> None \<and> first_track Video s = None)))"

text \<open>The state in which the second part of toggleScreenShare starts.\<close>

definition switched :: "display_result \<Rightarrow> state \<Rightarrow> state" where
  "switched d s = (case switch_source d s of Inl msg \<Rightarrow> s | Inr s1 \<Rightarrow> s1)"

text \<open>The pending re-dial timers.\<close>

definition is_redial :: "task \<Rightarrow> bool" where
  "is_redial t = (case t of StallRedial p \<Rightarrow> True | ReplaceRedial p \<Rightarrow> True | _ \<Rightarrow> False)"

definition redials :: "state \<Rightarrow> (int \<times> task) list" where
  "redials s = filter (\<lambda>(d, t). is_redial t) (timers s)"

text \<open>A connected outbound call, with and without a peer connection that lists its
  senders; and a screen share whose fallback re-dial gets no handle.\<close>

definition senders_pc :: pconn where
  "senders_pc = \<lparr>iceConnectionState = IceConnected, hasGetSenders = True, senders = [Some 0, Some 1]\<rparr>"

definition in_call :: state where
  "in_call =
     run [(quiet, Load MediaGranted), (quiet, PeerOpen ''me''), (quiet, UserInput (js ''bob'')),
          (quiet, ClickConnect), (quiet, Transport 0 (Some senders_pc)),
          (quiet, CallStream 0 [\<lparr>kind = Audio, enabled = True\<rparr>, \<lparr>kind = Video, enabled = True\<rparr>])]
       (page_load 0)"

definition in_call_plain :: state where
  "in_call_plain =
     run [(quiet, Load MediaGranted), (quiet, PeerOpen ''me''), (quiet, UserInput (js ''bob'')),
          (quiet, ClickConnect),
          (quiet, CallStream 0 [\<lparr>kind = Audio, enabled = True\<rparr>, \<lparr>kind = Video, enabled = True\<rparr>])]
       (page_load 0)"

definition refusing :: env where
  "refusing = \<lparr>emitsClose = False, callSucceeds = False\<rparr>"

definition share_redial_fails :: state where
  "share_redial_fails =
     run [(quiet, ClickShare DisplayGranted), (quiet, PeerDisconnected), (quiet, Advance 1000),
          (refusing, Fire (ReplaceRedial (js ''bob'')))] in_call_plain"

definition sharing_plain :: state where
  "sharing_plain = run [(quiet, ClickShare DisplayGranted), (quiet, Advance 1000)] in_call_plain"

text \<open>An inbound call arrives while a connected call shows its stream, and never
  delivers a stream of its own; a dial that nobody answers for thirty seconds.\<close>

definition pending_behind_stream :: state where
  "pending_behind_stream =
     run [(quiet, PeerCall (js ''carol'') None), (quiet, Advance 30000),
          (quiet, Fire (ConnectionTimeout 1))] in_call"

definition ready_to_dial :: state where
  "ready_to_dial =
     run [(quiet, Load MediaGranted), (quiet, PeerOpen ''me''), (quiet, UserInput (js ''bob''))]
       (page_load 0)"

definition unanswered :: state where
  "unanswered = run [(quiet, ClickConnect), (quiet, Advance 30000)] ready_to_dial"

text \<open>A dial whose transport has failed, fifteen seconds and two health checks later;
  the same two seconds after the third check; and a dial that an answered inbound call
  has superseded as the current call.\<close>

definition failed_pc :: pconn where
  "failed_pc = \<lparr>iceConnectionState = IceFailed, hasGetSenders = True, senders = []\<rparr>"

definition stalling :: state where
  "stalling =
     run [(quiet, ClickConnect), (quiet, Transport 0 (Some failed_pc)), (quiet, Advance 5000),
          (quiet, Fire (ConnectionCheck 0)), (quiet, Advance 5000),
          (quiet, Fire (ConnectionCheck 0)), (quiet, Advance 5000)] ready_to_dial"

definition stall_detected :: state where
  "stall_detected = run [(quiet, Fire (ConnectionCheck 0)), (quiet, Advance 2000)] stalling"

definition superseded :: state where
  "superseded =
     run [(quiet, ClickConnect), (quiet, PeerCall (js ''carol'') None),
          (quiet, Transport 0 (Some failed_pc)), (quiet, Advance 15000)] ready_to_dial"

text \<open>The calls that are not closed, and the single-session invariant: every call that is
  not closed is the current call.\<close>

definition live_count :: "state \<Rightarrow> nat" where
  "live_count s = length (filter (\<lambda>co. \<not> closed co) (calls s))"

definition single_session :: "state \<Rightarrow> bool" where
  "single_session s =
     list_all (\<lambda>i. closed (calls s ! i) \<or> currentCall s = Some i) [0..<length (calls s)]"

text \<open>The state after the first dial.\<close>

definition dialing :: state where
  "dialing = run [(quiet, ClickConnect)] ready_to_dial"

text \<open>A remote stream with one audio and one video track.\<close>

definition av_stream :: remote_stream where
  "av_stream = [\<lparr>kind = Audio, enabled = True\<rparr>, \<lparr>kind = Video, enabled = True\<rparr>]"

text \<open>A dial that ended with an error event of the call, one that the user ended, and one
  that timed out.\<close>

definition errored :: state where
  "errored = run [(quiet, CallFailed 0 ''negotiation failed'')] dialing"

definition hung_up :: state where
  "hung_up = run [(quiet, ClickEnd)] dialing"

definition timed_out :: state where
  "timed_out = run [(quiet, Fire (ConnectionTimeout 0))] unanswered"

text \<open>The stall is detected, the user ends the call, and two seconds later the re-dial
  timer fires.\<close>

definition ended_after_stall :: state where
  "ended_after_stall = run [(quiet, Fire (ConnectionCheck 0)), (quiet, ClickEnd)] stalling"

definition redial_after_end :: state where
  "redial_after_end =
     run [(quiet, Advance 2000), (quiet, Fire (StallRedial (js ''bob'')))] ended_after_stall"

text \<open>Three dials with every timer fired on schedule.  The user dials bob, ten seconds
  later dials carol over the pending call, and nobody answers; no \<open>close\<close> event is
  delivered for the handle that the second dial closed.  \<open>second_dial_pending\<close> is the
  state thirty seconds after the first dial, \<open>stale_timeout\<close> the state after the
  first dial's timeout has fired there, and \<open>third_dial\<close> the state after the user
  has then dialled dave.\<close>

definition second_dial_pending :: state where
  "second_dial_pending =
     run [(quiet, ClickConnect),
          (quiet, Advance 5000), (quiet, Fire (ConnectionCheck 0)),
          (quiet, Advance 5000), (quiet, Fire (ConnectionCheck 0)),
          (quiet, UserInput (js ''carol'')), (quiet, ClickConnect),
          (quiet, Advance 5000), (quiet, Fire (ConnectionCheck 0)),
          (quiet, Fire (ConnectionCheck 1)),
          (quiet, Advance 5000), (quiet, Fire (ConnectionCheck 1)),
          (quiet, Advance 5000), (quiet, Fire (ConnectionCheck 1)),
          (quiet, Advance 5000), (quiet, Fire (ConnectionCheck 1))] ready_to_dial"

definition stale_timeout :: state where
  "stale_timeout = run [(quiet, Fire (ConnectionTimeout 0))] second_dial_pending"

definition third_dial :: state where
  "third_dial = run [(quiet, UserInput (js ''dave'')), (quiet, ClickConnect)] stale_timeout"

section \<open>Frame lemmas: what each callback leaves alone\<close>

lemma reconnects_upd [simp]:
  "reconnects (s\<lparr>now := a1\<rparr>) = reconnects s"
  "reconnects (s\<lparr>online := a2\<rparr>) = reconnects s"
  "reconnects (s\<lparr>tracks := a3\<rparr>) = reconnects s"
  "reconnects (s\<lparr>calls := a4\<rparr>) = reconnects s"
  "reconnects (s\<lparr>localStream := a5\<rparr>) = reconnects s"
  "reconnects (s\<lparr>originalStream := a6\<rparr>) = reconnects s"
  "reconnects (s\<lparr>peer := a7\<rparr>) = reconnects s"
  "reconnects (s\<lparr>currentCall := a8\<rparr>) = reconnects s"
  "reconnects (s\<lparr>isAudioMuted := a9\<rparr>) = reconnects s"
  "reconnects (s\<lparr>isVideoOff := a10\<rparr>) = reconnects s"
  "reconnects (s\<lparr>isScreenSharing := a11\<rparr>) = reconnects s"
  "reconnects (s\<lparr>reconnectAttempts := a12\<rparr>) = reconnects s"
  "reconnects (s\<lparr>localVideo := a13\<rparr>) = reconnects s"
  "reconnects (s\<lparr>remoteVideo := a14\<rparr>) = reconnects s"
  "reconnects (s\<lparr>peerIdInput := a15\<rparr>) = reconnects s"
  "reconnects (s\<lparr>roomId := a16\<rparr>) = reconnects s"
  "reconnects (s\<lparr>statusText := a17\<rparr>) = reconnects s"
  "reconnects (s\<lparr>statusClass := a18\<rparr>) = reconnects s"
  "reconnects (s\<lparr>endCallDisabled := a19\<rparr>) = reconnects s"
  "reconnects (s\<lparr>notifications := a20\<rparr>) = reconnects s"
  "reconnects (s\<lparr>notificationShown := a21\<rparr>) = reconnects s"
  "reconnects (s\<lparr>timers := a22\<rparr>) = reconnects s"
  "reconnects (s\<lparr>pendingReplace := a23\<rparr>) = reconnects s"
  "reconnects (s\<lparr>screenTracks := a24\<rparr>) = reconnects s"
  "reconnects (s\<lparr>listening := a25\<rparr>) = reconnects s"
  by (simp_all add: reconnects_def)

lemma reconnects_log [simp]:
  "x \<noteq> LibReconnect \<Longrightarrow> reconnects (s\<lparr>libLog := libLog s' @ [x]\<rparr>) = reconnects s'"
  "reconnects (s\<lparr>libLog := libLog s' @ [LibReconnect]\<rparr>) = Suc (reconnects s')"
  by (simp_all add: reconnects_def)

lemma setTimer_rc [simp]:
  "reconnects (setTimer d t s) = reconnects s"
  "reconnectAttempts (setTimer d t s) = reconnectAttempts s"
  by (simp_all add: setTimer_def)

lemma showNotification_rc [simp]:
  "reconnects (showNotification m ty s) = reconnects s"
  "reconnectAttempts (showNotification m ty s) = reconnectAttempts s"
  by (simp_all add: showNotification_def)

lemma handleCallStream_rc [simp]:
  "reconnects (handleCallStream c s) = reconnects s"
  "reconnectAttempts (handleCallStream c s) = reconnectAttempts s"
  by (simp_all add: handleCallStream_def)

lemma on_close_rc [simp]:
  "reconnects (on_close c s) = reconnects s"
  "reconnectAttempts (on_close c s) = reconnectAttempts s"
  by (simp_all add: on_close_def)

lemma call_close_rc [simp]:
  "reconnects (call_close e c s) = reconnects s"
  "reconnectAttempts (call_close e c s) = reconnectAttempts s"
  by (simp_all add: call_close_def Let_def split: option.splits)

lemma on_remote_close_rc [simp]:
  "reconnects (on_remote_close c s) = reconnects s"
  "reconnectAttempts (on_remote_close c s) = reconnectAttempts s"
  by (simp_all add: on_remote_close_def Let_def split: option.splits)

lemma peer_call_rc [simp]:
  "reconnects (snd (peer_call e p ts s)) = reconnects s"
  "reconnectAttempts (snd (peer_call e p ts s)) = reconnectAttempts s"
  by (simp_all add: peer_call_def Let_def split: option.splits)

lemma initializePeerConnection_rc [simp]:
  "reconnects (initializePeerConnection s) = reconnects s"
  "reconnectAttempts (initializePeerConnection s) = reconnectAttempts s"
  by (simp_all add: initializePeerConnection_def reconnects_def)

lemma on_peer_call_rc [simp]:
  "reconnects (on_peer_call r ts s) = reconnects s"
  "reconnectAttempts (on_peer_call r ts s) = reconnectAttempts s"
  by (simp_all add: on_peer_call_def Let_def reconnects_def showNotification_def setTimer_def handleCallStream_def)

lemma on_peer_disconnected_rc [simp]:
  "reconnects (on_peer_disconnected s) = reconnects s"
  "reconnectAttempts (on_peer_disconnected s) = reconnectAttempts s"
  by (simp_all add: on_peer_disconnected_def)

lemma on_peer_close_rc [simp]:
  "reconnects (on_peer_close s) = reconnects s"
  "reconnectAttempts (on_peer_close s) = reconnectAttempts s"
  by (simp_all add: on_peer_close_def)

lemma on_peer_error_rc [simp]:
  "reconnects (on_peer_error k s) = reconnects s"
  "reconnectAttempts (on_peer_error k s) = reconnectAttempts s"
  by (simp_all add: on_peer_error_def Let_def split: option.splits)

lemma connect_failed_rc [simp]:
  "reconnects (connect_failed m s) = reconnects s"
  "reconnectAttempts (connect_failed m s) = reconnectAttempts s"
  by (simp_all add: connect_failed_def)

lemma connectToPeer_rc [simp]:
  "reconnects (connectToPeer e s) = reconnects s"
  "reconnectAttempts (connectToPeer e s) = reconnectAttempts s"
  by (simp_all add: connectToPeer_def Let_def case_prod_unfold split: option.splits)

lemma connectionTimeout_cb_rc [simp]:
  "reconnects (connectionTimeout_cb e c s) = reconnects s"
  "reconnectAttempts (connectionTimeout_cb e c s) = reconnectAttempts s"
  by (simp_all add: connectionTimeout_cb_def Let_def)

lemma on_stream_rc [simp]:
  "reconnects (on_stream c rs s) = reconnects s"
  "reconnectAttempts (on_stream c rs s) = reconnectAttempts s"
  by (simp_all add: on_stream_def)

lemma on_call_error_rc [simp]:
  "reconnects (on_call_error c m s) = reconnects s"
  "reconnectAttempts (on_call_error c m s) = reconnectAttempts s"
  by (simp_all add: on_call_error_def)

lemma connectionCheck_cb_rc [simp]:
  "reconnects (connectionCheck_cb e c s) = reconnects s"
  "reconnectAttempts (connectionCheck_cb e c s) = reconnectAttempts s"
  by (simp_all add: connectionCheck_cb_def Let_def)

lemma stall_redial_cb_rc [simp]:
  "reconnects (stall_redial_cb e p s) = reconnects s"
  "reconnectAttempts (stall_redial_cb e p s) = reconnectAttempts s"
  by (simp_all add: stall_redial_cb_def case_prod_unfold split: option.splits)

lemma toggleAudio_rc [simp]:
  "reconnects (toggleAudio s) = reconnects s"
  "reconnectAttempts (toggleAudio s) = reconnectAttempts s"
  by (simp_all add: toggleAudio_def Let_def split: option.splits list.splits)

lemma toggleVideo_rc [simp]:
  "reconnects (toggleVideo s) = reconnects s"
  "reconnectAttempts (toggleVideo s) = reconnectAttempts s"
  by (simp_all add: toggleVideo_def Let_def split: option.splits list.splits)

lemma replaceCallWithNewStream_rc [simp]:
  "reconnects (replaceCallWithNewStream e s) = reconnects s"
  "reconnectAttempts (replaceCallWithNewStream e s) = reconnectAttempts s"
  by (simp_all add: replaceCallWithNewStream_def split: option.splits)

lemma replace_failed_rc [simp]:
  "reconnects (replace_failed s) = reconnects s"
  "reconnectAttempts (replace_failed s) = reconnectAttempts s"
  by (simp_all add: replace_failed_def)

lemma replace_redial_cb_rc [simp]:
  "reconnects (replace_redial_cb e p s) = reconnects s"
  "reconnectAttempts (replace_redial_cb e p s) = reconnectAttempts s"
  by (simp_all add: replace_redial_cb_def case_prod_unfold split: option.splits)

lemma flip_sharing_rc [simp]:
  "reconnects (flip_sharing s) = reconnects s"
  "reconnectAttempts (flip_sharing s) = reconnectAttempts s"
  by (simp_all add: flip_sharing_def)

lemma update_call_rc [simp]:
  "reconnects (update_call e s) = reconnects s"
  "reconnectAttempts (update_call e s) = reconnectAttempts s"
  by (simp_all add: update_call_def Let_def split: option.splits list.splits)

lemma toggleScreenShare_rc [simp]:
  "reconnects (toggleScreenShare e d s) = reconnects s"
  "reconnectAttempts (toggleScreenShare e d s) = reconnectAttempts s"
  by (simp_all add: toggleScreenShare_def switch_source_def share_error_def Let_def
      split: sum.splits display_result.splits)

lemma replace_settled_rc [simp]:
  "reconnects (replace_settled e ok s) = reconnects s"
  "reconnectAttempts (replace_settled e ok s) = reconnectAttempts s"
  by (simp_all add: replace_settled_def Let_def split: list.splits)

lemma endCall_rc [simp]:
  "reconnects (endCall e s) = reconnects s"
  "reconnectAttempts (endCall e s) = reconnectAttempts s"
  by (simp_all add: endCall_def split: option.splits)

lemma checkConnectivity_rc [simp]:
  "reconnects (checkConnectivity s) = reconnects s"
  "reconnectAttempts (checkConnectivity s) = reconnectAttempts s"
  by (simp_all add: checkConnectivity_def)

lemma init_rc [simp]:
  "reconnects (init m s) = reconnects s"
  "reconnectAttempts (init m s) = reconnectAttempts s"
  by (simp_all add: init_def init_failed_def Let_def split: media_result.splits)

lemma set_transport_rc [simp]:
  "reconnects (set_transport c pc s) = reconnects s"
  "reconnectAttempts (set_transport c pc s) = reconnectAttempts s"
  by (simp_all add: set_transport_def split: option.splits)

section \<open>Timers\<close>

lemma dues_setTimer:
  "dues t (setTimer d t' s) = (if t' = t then dues t s @ [now s + d] else dues t s)"
  by (simp add: dues_def setTimer_def)

lemma dues_mem: "d \<in> set (dues t s) \<longleftrightarrow> (d, t) \<in> set (timers s)"
  by (force simp: dues_def)

lemma fire_not_due:
  assumes "\<forall>d\<in>set (dues t s). now s < d"
  shows "fire e t s = s"
proof -
  have "\<not> (d, t) \<in> set (timers s) \<or> \<not> d \<le> now s" for d
    using assms dues_mem [of d t s] by force
  then have "find (\<lambda>(d, t'). t' = t \<and> d \<le> now s) (timers s) = None"
    by (auto simp: find_None_iff)
  then show ?thesis by (simp add: fire_def)
qed

lemma find_single:
  assumes "filter Q xs = [x]" and "P x" and "\<And>y. P y \<Longrightarrow> Q y"
  shows "find P xs = Some x"
proof (cases "find P xs")
  case None
  have "x \<in> set (filter Q xs)" using assms(1) by simp
  then have "x \<in> set xs" by simp
  with None assms(2) show ?thesis by (auto simp: find_None_iff)
next
  case (Some y)
  then have "y \<in> set xs" and "P y" by (auto simp: find_Some_iff)
  then have "y \<in> set (filter Q xs)" using assms(3) by simp
  with assms(1) Some show ?thesis by simp
qed

lemma dues_single:
  assumes "dues t s = [d]"
  shows "filter (\<lambda>(d', t'). t' = t) (timers s) = [(d, t)]"
proof -
  from assms obtain x where x: "filter (\<lambda>(d', t'). t' = t) (timers s) = [x]" and "fst x = d"
    by (auto simp: dues_def map_eq_Cons_conv)
  moreover from x have "x \<in> set (filter (\<lambda>(d', t'). t' = t) (timers s))" by simp
  then have "snd x = t" by auto
  ultimately show ?thesis by (cases x) simp
qed

lemma fire_single:
  assumes "dues t s = [d]" and "d \<le> now s"
  shows "fire e t s =
           run_task e t (s\<lparr>timers := (case period t of None \<Rightarrow> remove1 (d, t) (timers s)
                                      | Some p \<Rightarrow> remove1 (d, t) (timers s) @ [(d + p, t)])\<rparr>)"
proof -
  have "find (\<lambda>(d', t'). t' = t \<and> d' \<le> now s) (timers s) = Some (d, t)"
    by (rule find_single [OF dues_single [OF assms(1)]]) (use assms(2) in auto)
  then show ?thesis by (simp add: fire_def Let_def)
qed

lemma dues_rearm:
  assumes "dues t s = [d]"
  shows "dues t (s\<lparr>timers := remove1 (d, t) (timers s) @ [(d + p, t)]\<rparr>) = [d + p]"
    and "dues t (s\<lparr>timers := remove1 (d, t) (timers s)\<rparr>) = []"
proof -
  have "filter (\<lambda>(d', t'). t' = t) (remove1 (d, t) (timers s)) = []"
    using dues_single [OF assms] by (simp add: filter_remove1)
  then show "dues t (s\<lparr>timers := remove1 (d, t) (timers s) @ [(d + p, t)]\<rparr>) = [d + p]"
    and "dues t (s\<lparr>timers := remove1 (d, t) (timers s)\<rparr>) = []"
    by (simp_all add: dues_def)
qed

lemma dues_update [simp]:
  "dues t (s\<lparr>now := a1\<rparr>) = dues t s"
  "dues t (s\<lparr>online := a2\<rparr>) = dues t s"
  "dues t (s\<lparr>tracks := a3\<rparr>) = dues t s"
  "dues t (s\<lparr>calls := a4\<rparr>) = dues t s"
  "dues t (s\<lparr>localStream := a5\<rparr>) = dues t s"
  "dues t (s\<lparr>originalStream := a6\<rparr>) = dues t s"
  "dues t (s\<lparr>peer := a7\<rparr>) = dues t s"
  "dues t (s\<lparr>currentCall := a8\<rparr>) = dues t s"
  "dues t (s\<lparr>isAudioMuted := a9\<rparr>) = dues t s"
  "dues t (s\<lparr>isVideoOff := a10\<rparr>) = dues t s"
  "dues t (s\<lparr>isScreenSharing := a11\<rparr>) = dues t s"
  "dues t (s\<lparr>reconnectAttempts := a12\<rparr>) = dues t s"
  "dues t (s\<lparr>localVideo := a13\<rparr>) = dues t s"
  "dues t (s\<lparr>remoteVideo := a14\<rparr>) = dues t s"
  "dues t (s\<lparr>peerIdInput := a15\<rparr>) = dues t s"
  "dues t (s\<lparr>roomId := a16\<rparr>) = dues t s"
  "dues t (s\<lparr>statusText := a17\<rparr>) = dues t s"
  "dues t (s\<lparr>statusClass := a18\<rparr>) = dues t s"
  "dues t (s\<lparr>endCallDisabled := a19\<rparr>) = dues t s"
  "dues t (s\<lparr>notifications := a20\<rparr>) = dues t s"
  "dues t (s\<lparr>notificationShown := a21\<rparr>) = dues t s"
  "dues t (s\<lparr>libLog := a22\<rparr>) = dues t s"
  "dues t (s\<lparr>pendingReplace := a23\<rparr>) = dues t s"
  "dues t (s\<lparr>screenTracks := a24\<rparr>) = dues t s"
  "dues t (s\<lparr>listening := a25\<rparr>) = dues t s"
  by (simp_all add: dues_def)

lemma dues_showNotification:
  "dues t (showNotification m ty s) =
     (if t = HideNotification then dues t s @ [now s + 5000] else dues t s)"
  by (simp add: showNotification_def dues_setTimer)

lemma filter_clearTimer:
  "filter (\<lambda>(d, t'). t' = t) (clearTimer u tm) =
     (if t = u then [] else filter (\<lambda>(d, t'). t' = t) tm)"
  by (induction tm) (auto simp: clearTimer_def)

lemma dues_clearTimer:
  "dues t (s\<lparr>timers := clearTimer u (timers s)\<rparr>) = (if t = u then [] else dues t s)"
  by (simp add: dues_def filter_clearTimer)

lemma setTimer_now [simp]: "now (setTimer d t s) = now s"
  by (simp add: setTimer_def)

section \<open>Closing a handle\<close>

lemma redials_update [simp]:
  "redials (s\<lparr>now := a1\<rparr>) = redials s"
  "redials (s\<lparr>online := a2\<rparr>) = redials s"
  "redials (s\<lparr>tracks := a3\<rparr>) = redials s"
  "redials (s\<lparr>calls := a4\<rparr>) = redials s"
  "redials (s\<lparr>localStream := a5\<rparr>) = redials s"
  "redials (s\<lparr>originalStream := a6\<rparr>) = redials s"
  "redials (s\<lparr>peer := a7\<rparr>) = redials s"
  "redials (s\<lparr>currentCall := a8\<rparr>) = redials s"
  "redials (s\<lparr>isAudioMuted := a9\<rparr>) = redials s"
  "redials (s\<lparr>isVideoOff := a10\<rparr>) = redials s"
  "redials (s\<lparr>isScreenSharing := a11\<rparr>) = redials s"
  "redials (s\<lparr>reconnectAttempts := a12\<rparr>) = redials s"
  "redials (s\<lparr>localVideo := a13\<rparr>) = redials s"
  "redials (s\<lparr>remoteVideo := a14\<rparr>) = redials s"
  "redials (s\<lparr>peerIdInput := a15\<rparr>) = redials s"
  "redials (s\<lparr>roomId := a16\<rparr>) = redials s"
  "redials (s\<lparr>statusText := a17\<rparr>) = redials s"
  "redials (s\<lparr>statusClass := a18\<rparr>) = redials s"
  "redials (s\<lparr>endCallDisabled := a19\<rparr>) = redials s"
  "redials (s\<lparr>notifications := a20\<rparr>) = redials s"
  "redials (s\<lparr>notificationShown := a21\<rparr>) = redials s"
  "redials (s\<lparr>libLog := a22\<rparr>) = redials s"
  "redials (s\<lparr>pendingReplace := a23\<rparr>) = redials s"
  "redials (s\<lparr>screenTracks := a24\<rparr>) = redials s"
  "redials (s\<lparr>listening := a25\<rparr>) = redials s"
  by (simp_all add: redials_def)

lemma redials_setTimer:
  "redials (setTimer d t s) = (if is_redial t then redials s @ [(now s + d, t)] else redials s)"
  by (simp add: redials_def setTimer_def)

lemma redials_showNotification [simp]: "redials (showNotification m ty s) = redials s"
  by (simp add: showNotification_def redials_setTimer is_redial_def)

lemma redials_clearTimer [simp]:
  "\<not> is_redial t \<Longrightarrow> redials (s\<lparr>timers := clearTimer t (timers s)\<rparr>) = redials s"
proof -
  assume t: "\<not> is_redial t"
  have "filter (\<lambda>(d, t). is_redial t) (clearTimer t tm) = filter (\<lambda>(d, t). is_redial t) tm" for tm
    using t by (induction tm) (auto simp: clearTimer_def)
  then show ?thesis by (simp add: redials_def)
qed

lemma redials_on_close [simp]: "redials (on_close c s) = redials s"
  by (simp add: on_close_def is_redial_def)

lemma redials_call_close [simp]: "redials (call_close e c s) = redials s"
  by (simp add: call_close_def Let_def split: option.splits)

lemma call_close_calls:
  assumes "lookup (calls s) c = Some co"
  shows "calls (call_close e c s) = (calls s)[c := co\<lparr>closed := True\<rparr>]"
proof (cases "closed co")
  case True
  then have "co\<lparr>closed := True\<rparr> = co\<lparr>closed := closed co\<rparr>" by simp
  also have "\<dots> = co" by simp
  finally have eq: "co\<lparr>closed := True\<rparr> = co" .
  from assms have "calls s ! c = co" by (simp add: lookup_def split: if_splits)
  then have "(calls s)[c := co] = calls s" by (metis list_update_id)
  with eq have "(calls s)[c := co\<lparr>closed := True\<rparr>] = calls s" by simp
  with True assms show ?thesis by (simp add: call_close_def Let_def)
next
  case False
  with assms show ?thesis
    by (simp add: call_close_def Let_def on_close_def showNotification_def setTimer_def)
qed

lemma call_close_now [simp]: "now (call_close e c s) = now s"
  by (simp add: call_close_def Let_def on_close_def showNotification_def setTimer_def
      split: option.splits)

lemma call_close_libLog [simp]: "libLog (call_close e c s) = libLog s @ [LibClose c]"
  by (simp add: call_close_def Let_def on_close_def showNotification_def setTimer_def
      split: option.splits)

lemma replaceCallWithNewStream_effect:
  assumes "currentCall s = Some c" and "lookup (calls s) c = Some co"
  shows "calls (replaceCallWithNewStream e s) = (calls s)[c := co\<lparr>closed := True\<rparr>]"
    and "redials (replaceCallWithNewStream e s) =
           redials s @ [(now s + 1000, ReplaceRedial (remote co))]"
    and "libLog (replaceCallWithNewStream e s) = libLog s @ [LibClose c]"
proof -
  from assms show "calls (replaceCallWithNewStream e s) = (calls s)[c := co\<lparr>closed := True\<rparr>]"
    by (simp add: replaceCallWithNewStream_def call_close_calls setTimer_def)
  from assms show "redials (replaceCallWithNewStream e s) =
           redials s @ [(now s + 1000, ReplaceRedial (remote co))]"
    by (simp add: replaceCallWithNewStream_def remote_of_def redials_setTimer is_redial_def)
  from assms show "libLog (replaceCallWithNewStream e s) = libLog s @ [LibClose c]"
    by (simp add: replaceCallWithNewStream_def setTimer_def)
qed

section \<open>Opening a handle\<close>

lemma peer_call_success:
  assumes "localStream s = Some st" and "callSucceeds e"
  shows "peer_call e pid ts s =
           (Some (length (calls s)),
            s\<lparr>libLog := libLog s @ [LibCall pid],
              calls := calls s @ [\<lparr>remote = pid, closed = False, timestamp = ts,
                                   peerConnection = None, outbound = st\<rparr>]\<rparr>)"
  using assms by (simp add: peer_call_def Let_def)

lemma peer_call_failure:
  assumes "localStream s = None \<or> \<not> callSucceeds e"
  shows "peer_call e pid ts s = (None, s\<lparr>libLog := libLog s @ [LibCall pid]\<rparr>)"
  using assms by (auto simp: peer_call_def Let_def split: option.splits)

lemma handleCallStream_fields [simp]:
  "currentCall (handleCallStream c s) = currentCall s"
  "calls (handleCallStream c s) = calls s"
  "libLog (handleCallStream c s) = libLog s"
  "remoteVideo (handleCallStream c s) = remoteVideo s"
  by (simp_all add: handleCallStream_def setTimer_def)

lemma on_stream_connected:
  "statusText (on_stream c rs s) = ''Connected''"
  "statusClass (on_stream c rs s) = StatusConnected"
  "currentCall (on_stream c rs s) = currentCall s"
  "calls (on_stream c rs s) = calls s"
  "remoteVideo (on_stream c rs s) = Some (enable_first Audio (enable_first Video rs))"
  by (simp_all add: on_stream_def showNotification_def setTimer_def)

lemma dues_on_close:
  "t \<noteq> HideNotification \<Longrightarrow>
     dues t (on_close c s) = (if t = ConnectionTimeout c then [] else dues t s)"
  by (simp add: on_close_def dues_showNotification dues_clearTimer)

lemma dues_call_close:
  "t \<noteq> HideNotification \<Longrightarrow> t \<noteq> ConnectionTimeout c \<Longrightarrow> dues t (call_close e c s) = dues t s"
  by (simp add: call_close_def Let_def dues_on_close split: option.splits)

lemma call_close_fields [simp]:
  "peer (call_close e c s) = peer s"
  "localStream (call_close e c s) = localStream s"
  "peerIdInput (call_close e c s) = peerIdInput s"
  by (simp_all add: call_close_def Let_def on_close_def showNotification_def setTimer_def
      split: option.splits)

lemma handleCallStream_dues:
  "dues (ConnectionTimeout c) (handleCallStream c s) =
     dues (ConnectionTimeout c) s @ [now s + 30000]"
  "dues (ConnectionCheck c) (handleCallStream c s) = dues (ConnectionCheck c) s @ [now s + 5000]"
  by (simp_all add: handleCallStream_def dues_setTimer)

lemma handleCallStream_timers:
  "timers (handleCallStream c s) =
     timers s @ [(now s + 30000, ConnectionTimeout c), (now s + 5000, ConnectionCheck c)]"
  by (simp add: handleCallStream_def setTimer_def)

lemma on_peer_call_session:
  "currentCall (on_peer_call rid ts s) = Some (length (calls s))"
  "(now s + 30000, ConnectionTimeout (length (calls s))) \<in> set (timers (on_peer_call rid ts s))"
  "(now s + 5000, ConnectionCheck (length (calls s))) \<in> set (timers (on_peer_call rid ts s))"
  by (simp_all add: on_peer_call_def Let_def handleCallStream_timers showNotification_def
      setTimer_def)

lemma call_close_length [simp]: "length (calls (call_close e c s)) = length (calls s)"
  by (simp add: call_close_def Let_def on_close_def showNotification_def setTimer_def
      split: option.splits)

lemma call_close_peer_ready [simp]: "peer_ready (call_close e c s) = peer_ready s"
  by (simp add: peer_ready_def)

text \<open>White space of any kind is trimmed, and a dial with nothing else in the input only
  shows the notification.\<close>

lemma trim_white_space:
  "trim (js ''  '' @ [0xA0, 0xFEFF, 0x2028, 0x3000]) = [] \<and>
   trim (0xA0 # js '' bob'' @ [0x2009, 0x0A]) = js ''bob''"
  by code_simp

lemma connectToPeer_blank:
  "trim (peerIdInput s) = [] \<Longrightarrow>
     connectToPeer e s = showNotification ''Please enter a valid Peer ID'' SevError s"
  by (simp add: connectToPeer_def)

lemma connectToPeer_session:
  assumes "trim (peerIdInput s) \<noteq> []" and "peer_ready s" and "localStream s \<noteq> None"
    and "callSucceeds e"
  shows "currentCall (connectToPeer e s) = Some (length (calls s))"
    and "(now s + 30000, ConnectionTimeout (length (calls s))) \<in> set (timers (connectToPeer e s))"
    and "(now s + 5000, ConnectionCheck (length (calls s))) \<in> set (timers (connectToPeer e s))"
proof -
  define s1 where "s1 = s\<lparr>statusText := ''Connecting...'', statusClass := StatusConnecting\<rparr>"
  define s2 where "s2 = (case currentCall s1 of None \<Rightarrow> s1 | Some c \<Rightarrow> call_close e c s1)"
  from assms(3) obtain st where st: "localStream s = Some st" by auto
  have f: "peer_ready s2" "localStream s2 = Some st" "length (calls s2) = length (calls s)"
    "now s2 = now s"
    using assms(2) st by (simp_all add: s2_def s1_def peer_ready_def split: option.splits)
  have c: "connectToPeer e s =
      handleCallStream (length (calls s2))
        (s2\<lparr>libLog := libLog s2 @ [LibCall (trim (peerIdInput s))],
            calls := calls s2 @ [\<lparr>remote = trim (peerIdInput s), closed = False,
                                   timestamp = Some (now s2), peerConnection = None,
                                   outbound = st\<rparr>],
            currentCall := Some (length (calls s2)), endCallDisabled := False\<rparr>)"
    using assms(1) f(1) peer_call_success [OF f(2) assms(4)]
    by (simp add: connectToPeer_def Let_def s2_def [symmetric] s1_def [symmetric])
  show "currentCall (connectToPeer e s) = Some (length (calls s))"
    by (simp add: c f)
  show "(now s + 30000, ConnectionTimeout (length (calls s))) \<in> set (timers (connectToPeer e s))"
    by (simp add: c f handleCallStream_timers)
  show "(now s + 5000, ConnectionCheck (length (calls s))) \<in> set (timers (connectToPeer e s))"
    by (simp add: c f handleCallStream_timers)
qed

lemma on_stream_dues: "dues (ConnectionTimeout c) (on_stream c rs s) = []"
  by (simp add: on_stream_def dues_showNotification dues_clearTimer)

lemma connectionTimeout_cb_effect:
  assumes "remoteVideo s = None" and "lookup (calls s) c = Some co"
  shows "calls (connectionTimeout_cb e c s) = (calls s)[c := co\<lparr>closed := True\<rparr>]"
    and "currentCall (connectionTimeout_cb e c s) = None"
    and "endCallDisabled (connectionTimeout_cb e c s)"
    and "(''Connection timed out. The other user may not be available.'', SevError)
           \<in> set (notifications (connectionTimeout_cb e c s))"
proof -
  define s1 where "s1 = showNotification
                      ''Connection timed out. The other user may not be available.'' SevError
                      (s\<lparr>statusText := ''Connection timed out'',
                         statusClass := StatusDisconnected\<rparr>)"
  have l: "lookup (calls s1) c = Some co" and cs: "calls s1 = calls s"
    and n: "(''Connection timed out. The other user may not be available.'', SevError)
           \<in> set (notifications s1)"
    using assms(2) by (simp_all add: s1_def showNotification_def setTimer_def)
  have t: "connectionTimeout_cb e c s = (call_close e c s1)\<lparr>currentCall := None, endCallDisabled := True\<rparr>"
    using assms(1) by (simp add: connectionTimeout_cb_def Let_def s1_def)
  have "set (notifications s1) \<subseteq> set (notifications (call_close e c s1))"
    by (auto simp: call_close_def Let_def on_close_def showNotification_def setTimer_def
        split: option.splits)
  with n show "(''Connection timed out. The other user may not be available.'', SevError)
           \<in> set (notifications (connectionTimeout_cb e c s))"
    by (auto simp: t)
  show "calls (connectionTimeout_cb e c s) = (calls s)[c := co\<lparr>closed := True\<rparr>]"
    by (simp add: t call_close_calls [OF l] cs)
  show "currentCall (connectionTimeout_cb e c s) = None" by (simp add: t)
  show "endCallDisabled (connectionTimeout_cb e c s)" by (simp add: t)
qed

lemma stall_redial_success:
  assumes "peer_ready s" and "localStream s = Some st" and "callSucceeds e"
  shows "stall_redial_cb e pid s =
           handleCallStream (length (calls s))
             (s\<lparr>libLog := libLog s @ [LibCall pid],
                calls := calls s @ [\<lparr>remote = pid, closed = False, timestamp = None,
                                     peerConnection = None, outbound = st\<rparr>],
                currentCall := Some (length (calls s))\<rparr>)"
  using assms by (simp add: stall_redial_cb_def peer_call_success)

lemma stall_redial_timers:
  assumes "peer_ready s" and "localStream s = Some st" and "callSucceeds e"
  shows "timers (stall_redial_cb e pid s) =
           timers s @ [(now s + 30000, ConnectionTimeout (length (calls s))),
                       (now s + 5000, ConnectionCheck (length (calls s)))]"
  using assms by (simp add: stall_redial_success handleCallStream_timers)

lemma connectionCheck_cb_stall:
  assumes "currentCall s = Some c" and "lookup (calls s) c = Some co"
    and "remoteVideo s = None" and "timestamp co = Some ts" and "now s - ts > 10000"
    and "peerConnection co = Some pc" and "iceConnectionState pc = IceFailed"
  shows "calls (connectionCheck_cb e c s) = (calls s)[c := co\<lparr>closed := True\<rparr>]"
    and "redials (connectionCheck_cb e c s) = redials s @ [(now s + 2000, StallRedial (remote co))]"
    and "dues (ConnectionCheck c) (connectionCheck_cb e c s) = []"
    and "libLog (connectionCheck_cb e c s) = libLog s @ [LibClose c]"
proof -
  define s1 where
    "s1 = showNotification ''Connection problem detected. Trying to reconnect...'' SevError s"
  have l: "lookup (calls s1) c = Some co" and f: "calls s1 = calls s" "now s1 = now s"
    "redials s1 = redials s" "libLog s1 = libLog s"
    using assms(2) by (simp_all add: s1_def) (simp_all add: showNotification_def setTimer_def)
  have st: "stalled c s \<and> ice_failed c s"
    using assms by (simp add: stalled_def ice_failed_def)
  have r: "remote_of c s1 = remote co"
    using l by (simp add: remote_of_def)
  have k: "connectionCheck_cb e c s =
      (setTimer 2000 (StallRedial (remote co)) (call_close e c s1))
        \<lparr>timers := clearTimer (ConnectionCheck c)
                     (timers (setTimer 2000 (StallRedial (remote co)) (call_close e c s1)))\<rparr>"
    using assms(1) st by (simp add: connectionCheck_cb_def Let_def s1_def [symmetric] r)
  show "calls (connectionCheck_cb e c s) = (calls s)[c := co\<lparr>closed := True\<rparr>]"
    by (simp add: k call_close_calls [OF l] f setTimer_def)
  show "redials (connectionCheck_cb e c s) = redials s @ [(now s + 2000, StallRedial (remote co))]"
    by (simp add: k is_redial_def redials_setTimer f)
  show "dues (ConnectionCheck c) (connectionCheck_cb e c s) = []"
    by (simp add: k dues_clearTimer)
  show "libLog (connectionCheck_cb e c s) = libLog s @ [LibClose c]"
    by (simp add: k f setTimer_def)
qed

section \<open>The second part of toggleScreenShare\<close>

lemma current_senders_localVideo [simp]:
  "current_senders c (s\<lparr>localVideo := x\<rparr>) = current_senders c s"
  by (simp add: current_senders_def)

lemma first_track_localVideo [simp]:
  "first_track k (s\<lparr>localVideo := x\<rparr>) = first_track k s"
  by (simp add: first_track_def split: option.splits)

lemma setTimer_sharing [simp]: "isScreenSharing (setTimer d t s) = isScreenSharing s"
  by (simp add: setTimer_def)

lemma showNotification_sharing [simp]:
  "isScreenSharing (showNotification m ty s) = isScreenSharing s"
  by (simp add: showNotification_def)

lemma call_close_sharing [simp]: "isScreenSharing (call_close e c s) = isScreenSharing s"
  by (simp add: call_close_def on_close_def Let_def split: option.splits)

lemma replaceCallWithNewStream_sharing [simp]:
  "isScreenSharing (replaceCallWithNewStream e s) = isScreenSharing s"
  by (simp add: replaceCallWithNewStream_def split: option.splits)

lemma update_call_inplace:
  assumes "inplace s"
  shows "\<exists>c k t. currentCall s = Some c \<and> first_track Video s = Some t \<and>
           update_call e s =
             s\<lparr>localVideo := localStream s,
               pendingReplace := pendingReplace s @ [(c, k, t)],
               libLog := libLog s @ [LibReplaceTrack c k t]\<rparr>"
proof -
  from assms obtain c where c: "currentCall s = Some c"
    by (cases "currentCall s") (simp_all add: inplace_def)
  with assms obtain sds where sds: "current_senders c s = Some sds"
    by (cases "current_senders c s") (simp_all add: inplace_def)
  with assms c obtain k where k: "find_video_sender (tracks s) sds 0 = Some k"
    by (cases "find_video_sender (tracks s) sds 0") (simp_all add: inplace_def)
  with assms c sds obtain t where t: "first_track Video s = Some t"
    by (cases "first_track Video s") (simp_all add: inplace_def)
  then obtain st where st: "localStream s = Some st"
    by (cases "localStream s") (simp_all add: first_track_def)
  with t obtain rest where r: "tracks_of_kind (tracks s) Video st = t # rest"
    by (cases "tracks_of_kind (tracks s) Video st") (simp_all add: first_track_def)
  have "update_call e s =
             s\<lparr>localVideo := localStream s,
               pendingReplace := pendingReplace s @ [(c, k, t)],
               libLog := libLog s @ [LibReplaceTrack c k t]\<rparr>"
    by (simp add: update_call_def Let_def c sds k st r)
  with c t show ?thesis by blast
qed

lemma update_call_not_inplace:
  assumes "\<not> inplace s"
  shows "isScreenSharing (update_call e s) = (\<not> isScreenSharing s)"
proof (cases "currentCall s")
  case None
  then show ?thesis by (simp add: update_call_def Let_def flip_sharing_def)
next
  case c: (Some c)
  show ?thesis
  proof (cases "current_senders c s")
    case None
    with c show ?thesis by (simp add: update_call_def Let_def flip_sharing_def)
  next
    case sds: (Some sds)
    show ?thesis
    proof (cases "find_video_sender (tracks s) sds 0")
      case None
      with c sds show ?thesis by (simp add: update_call_def Let_def flip_sharing_def)
    next
      case k: (Some k)
      with assms c sds have n: "first_track Video s = None" by (simp add: inplace_def)
      show ?thesis
      proof (cases "localStream s")
        case None
        with c sds k show ?thesis by (simp add: update_call_def Let_def flip_sharing_def)
      next
        case (Some st)
        with n have "tracks_of_kind (tracks s) Video st = []"
          by (cases "tracks_of_kind (tracks s) Video st") (simp_all add: first_track_def)
        with c sds k Some show ?thesis by (simp add: update_call_def Let_def flip_sharing_def)
      qed
    qed
  qed
qed

lemma update_call_flag:
  "isScreenSharing (update_call e s) = (if inplace s then isScreenSharing s else \<not> isScreenSharing s)"
proof (cases "inplace s")
  case True
  from update_call_inplace [OF this, of e] obtain c k t where
    "update_call e s = s\<lparr>localVideo := localStream s,
               pendingReplace := pendingReplace s @ [(c, k, t)],
               libLog := libLog s @ [LibReplaceTrack c k t]\<rparr>" by blast
  with True show ?thesis by simp
next
  case False
  then show ?thesis by (simp add: update_call_not_inplace)
qed

lemma switch_source_sharing:
  "switch_source d s = Inr s1 \<Longrightarrow> isScreenSharing s1 = isScreenSharing s"
  by (auto simp: switch_source_def Let_def split: if_splits display_result.splits)

lemma switch_source_switched:
  "isScreenSharing s \<or> d = DisplayGranted \<Longrightarrow> switch_source d s = Inr (switched d s)"
  by (auto simp: switched_def switch_source_def Let_def)

lemma replace_redial_success:
  assumes "peer s \<noteq> None" and "localStream s = Some st" and "callSucceeds e"
  shows "replace_redial_cb e pid s =
           handleCallStream (length (calls s))
             (s\<lparr>libLog := libLog s @ [LibCall pid],
                calls := calls s @ [\<lparr>remote = pid, closed = False, timestamp = None,
                                     peerConnection = None, outbound = st\<rparr>],
                currentCall := Some (length (calls s))\<rparr>)"
  using assms by (auto simp: replace_redial_cb_def peer_call_success)

lemma replace_redial_timers:
  assumes "peer s \<noteq> None" and "localStream s = Some st" and "callSucceeds e"
  shows "timers (replace_redial_cb e pid s) =
           timers s @ [(now s + 30000, ConnectionTimeout (length (calls s))),
                       (now s + 5000, ConnectionCheck (length (calls s)))]"
  using assms by (simp add: replace_redial_success handleCallStream_timers)

lemma replace_redial_failure:
  assumes "peer s = None \<or> localStream s = None \<or> \<not> callSucceeds e"
  shows "calls (replace_redial_cb e pid s) = calls s"
    and "currentCall (replace_redial_cb e pid s) = currentCall s"
    and "statusText (replace_redial_cb e pid s) = ''Failed to update call with screen share''"
    and "statusClass (replace_redial_cb e pid s) = StatusDisconnected"
proof -
  have "replace_redial_cb e pid s = replace_failed s \<or>
        replace_redial_cb e pid s = replace_failed (s\<lparr>libLog := libLog s @ [LibCall pid]\<rparr>)"
  proof (cases "peer s")
    case None
    then show ?thesis by (simp add: replace_redial_cb_def)
  next
    case (Some p)
    with assms have "localStream s = None \<or> \<not> callSucceeds e" by simp
    from peer_call_failure [OF this] Some show ?thesis by (simp add: replace_redial_cb_def)
  qed
  then show "calls (replace_redial_cb e pid s) = calls s"
    and "currentCall (replace_redial_cb e pid s) = currentCall s"
    and "statusText (replace_redial_cb e pid s) = ''Failed to update call with screen share''"
    and "statusClass (replace_redial_cb e pid s) = StatusDisconnected"
    by (auto simp: replace_failed_def showNotification_def setTimer_def)
qed

lemma update_call_fallback:
  assumes "fallback s"
  shows "update_call e s = flip_sharing (replaceCallWithNewStream e (s\<lparr>localVideo := localStream s\<rparr>))"
proof -
  from assms obtain c where c: "currentCall s = Some c"
    by (cases "currentCall s") (simp_all add: fallback_def)
  show ?thesis
  proof (cases "current_senders c s")
    case None
    with c show ?thesis by (simp add: update_call_def Let_def)
  next
    case sds: (Some sds)
    show ?thesis
    proof (cases "find_video_sender (tracks s) sds 0")
      case None
      with c sds show ?thesis by (simp add: update_call_def Let_def)
    next
      case k: (Some k)
      with assms c sds obtain st where st: "localStream s = Some st"
        and n: "first_track Video s = None"
        by (auto simp: fallback_def)
      then have "tracks_of_kind (tracks s) Video st = []"
        by (cases "tracks_of_kind (tracks s) Video st") (simp_all add: first_track_def)
      with c sds k st show ?thesis by (simp add: update_call_def Let_def)
    qed
  qed
qed

lemma replace_settled_fulfilled:
  assumes "pendingReplace s = (c, k, t) # rest"
  shows "currentCall (replace_settled e True s) = currentCall s"
    and "map closed (calls (replace_settled e True s)) = map closed (calls s)"
    and "map remote (calls (replace_settled e True s)) = map remote (calls s)"
    and "redials (replace_settled e True s) = redials s"
proof -
  have m: "map closed (set_sender c k t cs) = map closed cs \<and>
           map remote (set_sender c k t cs) = map remote cs" for cs
  proof (cases "lookup cs c")
    case None
    then show ?thesis by (simp add: set_sender_def)
  next
    case (Some co)
    then have "c < length cs" and "cs ! c = co" by (simp_all add: lookup_def split: if_splits)
    then show ?thesis
      by (cases "peerConnection co") (simp_all add: set_sender_def Some map_update list_update_same_conv)
  qed
  from assms have r: "replace_settled e True s =
      showNotification ''Media updated successfully'' SevSuccess
        (s\<lparr>pendingReplace := rest, calls := set_sender c k t (calls s)\<rparr>)"
    by (simp add: replace_settled_def)
  show "currentCall (replace_settled e True s) = currentCall s"
    by (simp add: r showNotification_def setTimer_def)
  show "map closed (calls (replace_settled e True s)) = map closed (calls s)"
    by (simp add: r showNotification_def setTimer_def m)
  show "map remote (calls (replace_settled e True s)) = map remote (calls s)"
    by (simp add: r showNotification_def setTimer_def m)
  show "redials (replace_settled e True s) = redials s"
    by (simp add: r)
qed

lemma replace_settled_rejected:
  assumes "pendingReplace s = (c, k, t) # rest"
  shows "replace_settled e False s = replaceCallWithNewStream e (s\<lparr>pendingReplace := rest\<rparr>)"
  using assms by (simp add: replace_settled_def)

section \<open>Track toggles\<close>

lemma lookup_set_enabled:
  "lookup (set_enabled i b ts) j =
     (if j = i then map_option (\<lambda>t. t\<lparr>enabled := b\<rparr>) (lookup ts j) else lookup ts j)"
  by (simp add: lookup_def set_enabled_def)

lemma tracks_of_kind_set_enabled [simp]:
  "tracks_of_kind (set_enabled i b ts) k st = tracks_of_kind ts k st"
proof -
  have "map_option kind (lookup (set_enabled i b ts) j) = map_option kind (lookup ts j)" for j
    by (auto simp: lookup_def set_enabled_def nth_list_update)
  then show ?thesis by (simp add: tracks_of_kind_def)
qed

lemma tracks_of_kind_head:
  assumes "tracks_of_kind ts k st = t # rest"
  shows "\<exists>tr. lookup ts t = Some tr \<and> kind tr = k"
proof -
  from assms have "t \<in> set (tracks_of_kind ts k st)" by simp
  then show ?thesis by (auto simp: tracks_of_kind_def)
qed

lemma showNotification_media [simp]:
  "tracks (showNotification m ty s) = tracks s"
  "localStream (showNotification m ty s) = localStream s"
  "isAudioMuted (showNotification m ty s) = isAudioMuted s"
  "isVideoOff (showNotification m ty s) = isVideoOff s"
  by (simp_all add: showNotification_def setTimer_def)

lemma toggleAudio_first_track [simp]: "first_track k (toggleAudio s) = first_track k s"
  by (simp add: toggleAudio_def first_track_def Let_def split: option.splits list.splits)

lemma toggleVideo_first_track [simp]: "first_track k (toggleVideo s) = first_track k s"
  by (simp add: toggleVideo_def first_track_def Let_def split: option.splits list.splits)

lemma toggleAudio_flag:
  "isAudioMuted (toggleAudio s) =
     (if first_track Audio s = None then isAudioMuted s else \<not> isAudioMuted s)"
  by (simp add: toggleAudio_def first_track_def Let_def split: option.splits list.splits)

lemma toggleVideo_flag:
  "isVideoOff (toggleVideo s) =
     (if first_track Video s = None then isVideoOff s else \<not> isVideoOff s)"
  by (simp add: toggleVideo_def first_track_def Let_def split: option.splits list.splits)

lemma toggleAudio_enabled:
  "first_track Audio s = Some t \<Longrightarrow> track_enabled Audio (toggleAudio s) = Some (isAudioMuted s)"
  by (auto simp: toggleAudio_def first_track_def track_enabled_def Let_def lookup_set_enabled
      split: option.splits list.splits dest: tracks_of_kind_head)

lemma toggleVideo_enabled:
  "first_track Video s = Some t \<Longrightarrow> track_enabled Video (toggleVideo s) = Some (isVideoOff s)"
  by (auto simp: toggleVideo_def first_track_def track_enabled_def Let_def lookup_set_enabled
      split: option.splits list.splits dest: tracks_of_kind_head)

lemma track_enabled_first: "track_enabled k s = Some b \<Longrightarrow> first_track k s \<noteq> None"
  by (cases "first_track k s") (simp_all add: track_enabled_def)

text \<open>
  Claim C8, as the code has it.  Two toggles always restore the flag \<open>isAudioMuted\<close>
  (\<open>isVideoOff\<close>).  Each toggle writes the negated flag into the track, whatever the
  track held before, so after two toggles the first track's \<open>enabled\<close> is the negation
  of the original flag: it is the original \<open>enabled\<close> exactly when track and flag
  agreed at the start.  With a local stream that has no track of the kind, the toggle only
  shows the error notification: no flag and no track changes.
\<close>

theorem toggle_twice_restores:
  "isAudioMuted (toggleAudio (toggleAudio s)) = isAudioMuted s \<and>
   isVideoOff (toggleVideo (toggleVideo s)) = isVideoOff s \<and>
   (first_track Audio s \<noteq> None \<longrightarrow>
      track_enabled Audio (toggleAudio (toggleAudio s)) = Some (\<not> isAudioMuted s)) \<and>
   (first_track Video s \<noteq> None \<longrightarrow>
      track_enabled Video (toggleVideo (toggleVideo s)) = Some (\<not> isVideoOff s)) \<and>
   (track_enabled Audio s = Some (\<not> isAudioMuted s) \<longrightarrow>
      track_enabled Audio (toggleAudio (toggleAudio s)) = track_enabled Audio s) \<and>
   (track_enabled Video s = Some (\<not> isVideoOff s) \<longrightarrow>
      track_enabled Video (toggleVideo (toggleVideo s)) = track_enabled Video s) \<and>
   (localStream s \<noteq> None \<and> first_track Audio s = None \<longrightarrow>
      toggleAudio s = showNotification ''No audio track found'' SevError s \<and>
      tracks (toggleAudio s) = tracks s \<and> isAudioMuted (toggleAudio s) = isAudioMuted s \<and>
      isVideoOff (toggleAudio s) = isVideoOff s) \<and>
   (localStream s \<noteq> None \<and> first_track Video s = None \<longrightarrow>
      toggleVideo s = showNotification ''No video track found'' SevError s \<and>
      tracks (toggleVideo s) = tracks s \<and> isAudioMuted (toggleVideo s) = isAudioMuted s \<and>
      isVideoOff (toggleVideo s) = isVideoOff s)"
proof -
  have a: "isAudioMuted (toggleAudio (toggleAudio s)) = isAudioMuted s"
    by (simp add: toggleAudio_flag)
  have v: "isVideoOff (toggleVideo (toggleVideo s)) = isVideoOff s"
    by (simp add: toggleVideo_flag)
  have ea: "track_enabled Audio (toggleAudio (toggleAudio s)) = Some (\<not> isAudioMuted s)"
    if "first_track Audio s \<noteq> None"
  proof -
    from that obtain t where t: "first_track Audio s = Some t" by auto
    then have "first_track Audio (toggleAudio s) = Some t" by simp
    from toggleAudio_enabled [OF this] t show ?thesis by (simp add: toggleAudio_flag)
  qed
  have ev: "track_enabled Video (toggleVideo (toggleVideo s)) = Some (\<not> isVideoOff s)"
    if "first_track Video s \<noteq> None"
  proof -
    from that obtain t where t: "first_track Video s = Some t" by auto
    then have "first_track Video (toggleVideo s) = Some t" by simp
    from toggleVideo_enabled [OF this] t show ?thesis by (simp add: toggleVideo_flag)
  qed
  have ra: "track_enabled Audio (toggleAudio (toggleAudio s)) = track_enabled Audio s"
    if "track_enabled Audio s = Some (\<not> isAudioMuted s)"
    using that ea track_enabled_first [OF that] by simp
  have rv: "track_enabled Video (toggleVideo (toggleVideo s)) = track_enabled Video s"
    if "track_enabled Video s = Some (\<not> isVideoOff s)"
    using that ev track_enabled_first [OF that] by simp
  have na: "toggleAudio s = showNotification ''No audio track found'' SevError s"
    if "localStream s \<noteq> None \<and> first_track Audio s = None"
    using that by (auto simp: toggleAudio_def first_track_def split: option.splits list.splits)
  have nv: "toggleVideo s = showNotification ''No video track found'' SevError s"
    if "localStream s \<noteq> None \<and> first_track Video s = None"
    using that by (auto simp: toggleVideo_def first_track_def split: option.splits list.splits)
  from a v ea ev ra rv na nv show ?thesis by simp
qed

theorem toggle_twice_restores_witness:
  "track_enabled Video (run [(quiet, Load MediaGranted)] (page_load 0)) = Some True \<and>
   track_enabled Video
     (toggleVideo (toggleVideo (run [(quiet, Load MediaGranted)] (page_load 0)))) = Some True \<and>
   first_track Audio ((page_load 0)\<lparr>localStream := Some []\<rparr>) = None \<and>
   isAudioMuted (toggleAudio ((page_load 0)\<lparr>localStream := Some []\<rparr>)) = False \<and>
   notifications (toggleAudio ((page_load 0)\<lparr>localStream := Some []\<rparr>)) =
     [(''No audio track found'', SevError)]"
proof -
  have t: "track_enabled Video (run [(quiet, Load MediaGranted)] (page_load 0)) = Some True"
    by code_simp
  have f: "isVideoOff (run [(quiet, Load MediaGranted)] (page_load 0)) = False"
    by code_simp
  have n: "localStream ((page_load 0)\<lparr>localStream := Some []\<rparr>) \<noteq> None \<and>
           first_track Audio ((page_load 0)\<lparr>localStream := Some []\<rparr>) = None"
    by (simp add: first_track_def tracks_of_kind_def)
  have m: "notifications (showNotification ''No audio track found'' SevError
             ((page_load 0)\<lparr>localStream := Some []\<rparr>)) = [(''No audio track found'', SevError)]"
    by (simp add: showNotification_def setTimer_def page_load_def)
  have i: "isAudioMuted ((page_load 0)\<lparr>localStream := Some []\<rparr>) = False"
    by (simp add: page_load_def)
  from t f n m i
    toggle_twice_restores [of "run [(quiet, Load MediaGranted)] (page_load 0)"]
    toggle_twice_restores [of "(page_load 0)\<lparr>localStream := Some []\<rparr>"]
  show ?thesis by simp
qed

text \<open>
  Claim C8 as stated fails on a state the user can reach: with the camera video stopped
  (\<open>isVideoOff\<close> set) the user starts screen sharing; the fresh screen track is enabled.
  Two video toggles then leave that track disabled, although it was enabled before.
\<close>

theorem toggle_twice_counterexample:
  "track_enabled Video video_off_then_share = Some True \<and>
   track_enabled Video (toggleVideo (toggleVideo video_off_then_share)) = Some False"
  by code_simp

section \<open>Bounded reconnection\<close>

lemma reconnect_cb_rc:
  "reconnects (reconnect_cb s) =
     (if reconnectAttempts s < MAX_RECONNECT_ATTEMPTS then Suc (reconnects s) else reconnects s)"
  "reconnectAttempts (reconnect_cb s) =
     (if reconnectAttempts s < MAX_RECONNECT_ATTEMPTS then Suc (reconnectAttempts s)
      else reconnectAttempts s)"
  by (simp_all add: reconnect_cb_def)

lemma reconnect_cb_budget: "budget (reconnect_cb s) = budget s"
  unfolding budget_def reconnect_cb_rc by (cases "reconnectAttempts s < MAX_RECONNECT_ATTEMPTS") auto

lemma run_task_budget: "budget (run_task e t s) = budget s"
  by (cases t) (simp_all add: run_task_def reconnect_cb_budget, simp_all add: budget_def)

lemma timers_update_budget [simp]: "budget (s\<lparr>timers := tm\<rparr>) = budget s"
  by (simp add: budget_def)

lemma fire_budget: "budget (fire e t s) = budget s"
  by (simp add: fire_def Let_def run_task_budget split: option.splits prod.splits)

lemma step_budget: "\<not> is_registration ev \<Longrightarrow> budget (step e ev s) = budget s"
  by (cases ev) (simp_all add: step_def fire_budget is_registration_def, simp_all add: budget_def)

lemma run_budget:
  "list_all (\<lambda>x. \<not> is_registration (snd x)) tr \<Longrightarrow> budget (run tr s) = budget s"
proof (induction tr arbitrary: s)
  case Nil
  then show ?case by simp
next
  case (Cons x tr)
  obtain e ev where x: "x = (e, ev)" by (cases x)
  with Cons.prems have "\<not> is_registration ev" and "list_all (\<lambda>x. \<not> is_registration (snd x)) tr"
    by simp_all
  with Cons.IH [of "step e ev s"] x show ?case by (simp add: step_budget)
qed

lemma run_task_mono: "reconnects s \<le> reconnects (run_task e t s)"
  by (cases t) (simp_all add: run_task_def reconnect_cb_rc)

lemma fire_mono: "reconnects s \<le> reconnects (fire e t s)"
proof (cases "find (\<lambda>(d, t'). t' = t \<and> d \<le> now s) (timers s)")
  case None
  then show ?thesis by (simp add: fire_def)
next
  case (Some a)
  obtain d t' where "a = (d, t')" by (cases a)
  with Some show ?thesis
    using run_task_mono [of "s\<lparr>timers := (case period t of None \<Rightarrow> remove1 (d, t) (timers s)
        | Some p \<Rightarrow> remove1 (d, t) (timers s) @ [(d + p, t)])\<rparr>" e t]
    by (simp add: fire_def Let_def)
qed

lemma on_peer_open_rc: "reconnects (on_peer_open i s) = reconnects s"
  by (simp add: on_peer_open_def)

lemma step_mono: "reconnects s \<le> reconnects (step e ev s)"
  by (cases ev) (simp_all add: step_def fire_mono on_peer_open_rc)

lemma run_mono: "reconnects s \<le> reconnects (run tr s)"
proof (induction tr arbitrary: s)
  case Nil
  then show ?case by simp
next
  case (Cons x tr)
  obtain e ev where x: "x = (e, ev)" by (cases x)
  have "reconnects s \<le> reconnects (step e ev s)" by (rule step_mono)
  also have "\<dots> \<le> reconnects (run tr (step e ev s))" by (rule Cons.IH)
  finally show ?case using x by simp
qed

text \<open>
  Claim C4.  A \<open>disconnected\<close> event only schedules the reconnect callback 2000 ms
  later; a timer does not fire before it is due.  The callback calls
  \<open>peer.reconnect()\<close> and increments the counter when the counter is below 3, and does
  neither otherwise.  Hence over any sequence of events without an \<open>open\<close> event the
  number of reconnect calls grows by at most what is left of the allowance, and by nothing
  once the counter has reached 3.  The \<open>open\<close> handler resets the counter to 0.
\<close>

theorem reconnect_bounded:
  "dues Reconnect (on_peer_disconnected s) = dues Reconnect s @ [now s + 2000] \<and>
   reconnects (on_peer_disconnected s) = reconnects s \<and>
   reconnectAttempts (on_peer_disconnected s) = reconnectAttempts s \<and>
   ((\<forall>d\<in>set (dues Reconnect s). now s < d) \<longrightarrow> fire e Reconnect s = s) \<and>
   run_task e Reconnect s = reconnect_cb s \<and>
   (reconnectAttempts s < 3 \<longrightarrow>
      reconnects (reconnect_cb s) = reconnects s + 1 \<and>
      reconnectAttempts (reconnect_cb s) = reconnectAttempts s + 1) \<and>
   (3 \<le> reconnectAttempts s \<longrightarrow>
      reconnects (reconnect_cb s) = reconnects s \<and>
      reconnectAttempts (reconnect_cb s) = reconnectAttempts s) \<and>
   (list_all (\<lambda>x. \<not> is_registration (snd x)) tr \<longrightarrow>
      reconnects (run tr s) \<le> reconnects s + (3 - reconnectAttempts s)) \<and>
   (list_all (\<lambda>x. \<not> is_registration (snd x)) tr \<and> 3 \<le> reconnectAttempts s \<longrightarrow>
      reconnects (run tr s) = reconnects s) \<and>
   reconnectAttempts (on_peer_open i s) = 0 \<and>
   (peer s \<noteq> None \<longrightarrow> reconnectAttempts (step e (PeerOpen i) s) = 0)"
proof -
  have d: "dues Reconnect (on_peer_disconnected s) = dues Reconnect s @ [now s + 2000]"
    by (simp add: on_peer_disconnected_def dues_setTimer)
  have w: "(\<forall>d\<in>set (dues Reconnect s). now s < d) \<longrightarrow> fire e Reconnect s = s"
    using fire_not_due by blast
  have t: "run_task e Reconnect s = reconnect_cb s"
    by (simp add: run_task_def)
  have b: "reconnects (run tr s) \<le> reconnects s + (3 - reconnectAttempts s)"
    if "list_all (\<lambda>x. \<not> is_registration (snd x)) tr"
  proof -
    have "reconnects (run tr s) \<le> budget (run tr s)" by (simp add: budget_def)
    also have "\<dots> = budget s" using that by (rule run_budget)
    finally show ?thesis by (simp add: budget_def MAX_RECONNECT_ATTEMPTS_def)
  qed
  have n: "reconnects (run tr s) = reconnects s"
    if "list_all (\<lambda>x. \<not> is_registration (snd x)) tr \<and> 3 \<le> reconnectAttempts s"
    using that b run_mono [of s tr] by simp
  have z: "reconnectAttempts (on_peer_open i s) = 0"
    by (simp add: on_peer_open_def)
  have z': "peer s \<noteq> None \<longrightarrow> reconnectAttempts (step e (PeerOpen i) s) = 0"
    by (simp add: step_def z)
  from d w t b n z z' show ?thesis
    by (simp add: reconnect_cb_rc MAX_RECONNECT_ATTEMPTS_def)
qed

theorem reconnect_bounded_witness:
  "list_all (\<lambda>x. \<not> is_registration (snd x))
     (disconnect_cycle @ disconnect_cycle @ disconnect_cycle @ disconnect_cycle) \<and>
   reconnectAttempts registered = 0 \<and>
   dues Reconnect (on_peer_disconnected registered) = [2000] \<and>
   fire quiet Reconnect (on_peer_disconnected registered) = on_peer_disconnected registered \<and>
   reconnectAttempts (reconnect_cb registered) = 1 \<and>
   reconnects (run (disconnect_cycle @ disconnect_cycle @ disconnect_cycle @ disconnect_cycle)
     registered) = reconnects registered + 3 \<and>
   reconnectAttempts (run (disconnect_cycle @ disconnect_cycle @ disconnect_cycle) registered) = 3 \<and>
   reconnects (reconnect_cb
     (run (disconnect_cycle @ disconnect_cycle @ disconnect_cycle) registered)) =
   reconnects (run (disconnect_cycle @ disconnect_cycle @ disconnect_cycle) registered) \<and>
   reconnects (run (disconnect_cycle @ disconnect_cycle)
     (run (disconnect_cycle @ disconnect_cycle @ disconnect_cycle) registered)) =
   reconnects (run (disconnect_cycle @ disconnect_cycle @ disconnect_cycle) registered) \<and>
   reconnectAttempts (step quiet (PeerOpen ''me'')
     (run (disconnect_cycle @ disconnect_cycle @ disconnect_cycle) registered)) = 0"
proof -
  let ?x = "run (disconnect_cycle @ disconnect_cycle @ disconnect_cycle) registered"
  have h: "list_all (\<lambda>x. \<not> is_registration (snd x))
     (disconnect_cycle @ disconnect_cycle @ disconnect_cycle @ disconnect_cycle)"
    by (simp add: disconnect_cycle_def is_registration_def)
  have h2: "list_all (\<lambda>x. \<not> is_registration (snd x)) (disconnect_cycle @ disconnect_cycle)"
    by (simp add: disconnect_cycle_def is_registration_def)
  have a: "reconnectAttempts registered = 0 \<and> dues Reconnect registered = [] \<and>
           now registered = 0"
    by code_simp
  have c: "reconnects (run (disconnect_cycle @ disconnect_cycle @ disconnect_cycle @ disconnect_cycle)
     registered) = reconnects registered + 3"
    by code_simp
  have a3: "reconnectAttempts ?x = 3 \<and> peer ?x \<noteq> None"
    by code_simp
  have 1: "dues Reconnect (on_peer_disconnected registered) = [2000] \<and>
           reconnectAttempts (reconnect_cb registered) = 1"
    using a reconnect_bounded [where s = registered] by simp
  have n: "now (on_peer_disconnected registered) = 0"
    using a by (simp add: on_peer_disconnected_def)
  have 2: "fire quiet Reconnect (on_peer_disconnected registered) =
             on_peer_disconnected registered"
    using 1 n reconnect_bounded [where s = "on_peer_disconnected registered" and e = quiet]
    by simp
  have 3: "reconnects (run (disconnect_cycle @ disconnect_cycle @ disconnect_cycle @
             disconnect_cycle) registered) \<le> reconnects registered + 3"
    using h a reconnect_bounded [where s = registered and tr =
      "disconnect_cycle @ disconnect_cycle @ disconnect_cycle @ disconnect_cycle"]
    by simp
  have 4: "reconnects (reconnect_cb ?x) = reconnects ?x \<and>
           reconnects (run (disconnect_cycle @ disconnect_cycle) ?x) = reconnects ?x \<and>
           reconnectAttempts (step quiet (PeerOpen ''me'') ?x) = 0"
    using h2 a3 reconnect_bounded [where s = ?x and e = quiet and i = "''me''"
      and tr = "disconnect_cycle @ disconnect_cycle"]
    by simp
  from h a c a3 1 2 3 4 show ?thesis by simp
qed

section \<open>The periodic connectivity check\<close>

lemma dues_checkConnectivity:
  "dues CheckConnectivity (checkConnectivity s) = dues CheckConnectivity s"
  by (simp add: checkConnectivity_def dues_showNotification initializePeerConnection_def)

text \<open>
  Claim C10, as the code has it.  The interval is armed at page load for 10000 ms later
  and re-armed 10000 ms after each due time; its callback does not clear it.  When the
  browser is online and the registration is absent, disconnected or without identity,
  the callback is initializePeerConnection: the old \<open>Peer\<close> is destroyed, a fresh one is
  created (its identity arrives with the next \<open>open\<close> event), and the reconnect counter
  is neither read nor written.  When the browser is online and the registration is
  healthy, the state is unchanged.  When the browser is offline, the callback only
  reports it: the registration is left as it is.
\<close>

theorem connectivity_check:
  "(online s \<and> \<not> peer_healthy s \<longrightarrow>
      checkConnectivity s = initializePeerConnection s \<and>
      peer (checkConnectivity s) = Some \<lparr>peer_id = None, disconnected = False\<rparr> \<and>
      libLog (checkConnectivity s) =
        libLog s @ (if peer s = None then [] else [LibDestroy]) @ [LibNewPeer] \<and>
      reconnectAttempts (checkConnectivity s) = reconnectAttempts s \<and>
      peer (on_peer_open i (checkConnectivity s)) = Some \<lparr>peer_id = Some i, disconnected = False\<rparr>) \<and>
   (online s \<and> peer_healthy s \<longrightarrow> checkConnectivity s = s) \<and>
   (\<not> online s \<longrightarrow>
      peer (checkConnectivity s) = peer s \<and> libLog (checkConnectivity s) = libLog s \<and>
      reconnectAttempts (checkConnectivity s) = reconnectAttempts s \<and>
      statusText (checkConnectivity s) = ''You are offline. Please check your internet connection.'' \<and>
      notifications (checkConnectivity s) = notifications s @ [(''Internet connection lost'', SevError)]) \<and>
   dues CheckConnectivity (page_load t0) = [t0 + 10000] \<and>
   (dues CheckConnectivity s = [d] \<and> d \<le> now s \<longrightarrow>
      fire e CheckConnectivity s =
        checkConnectivity (s\<lparr>timers := remove1 (d, CheckConnectivity) (timers s) @ [(d + 10000, CheckConnectivity)]\<rparr>) \<and>
      dues CheckConnectivity (fire e CheckConnectivity s) = [d + 10000])"
proof -
  have r: "online s \<and> \<not> peer_healthy s \<longrightarrow>
      checkConnectivity s = initializePeerConnection s \<and>
      peer (checkConnectivity s) = Some \<lparr>peer_id = None, disconnected = False\<rparr> \<and>
      libLog (checkConnectivity s) =
        libLog s @ (if peer s = None then [] else [LibDestroy]) @ [LibNewPeer] \<and>
      reconnectAttempts (checkConnectivity s) = reconnectAttempts s \<and>
      peer (on_peer_open i (checkConnectivity s)) = Some \<lparr>peer_id = Some i, disconnected = False\<rparr>"
    by (simp add: checkConnectivity_def initializePeerConnection_def on_peer_open_def)
  have h: "online s \<and> peer_healthy s \<longrightarrow> checkConnectivity s = s"
    by (simp add: checkConnectivity_def)
  have f: "\<not> online s \<longrightarrow>
      peer (checkConnectivity s) = peer s \<and> libLog (checkConnectivity s) = libLog s \<and>
      reconnectAttempts (checkConnectivity s) = reconnectAttempts s \<and>
      statusText (checkConnectivity s) = ''You are offline. Please check your internet connection.'' \<and>
      notifications (checkConnectivity s) = notifications s @ [(''Internet connection lost'', SevError)]"
    by (simp add: checkConnectivity_def showNotification_def setTimer_def)
  have p: "dues CheckConnectivity (page_load t0) = [t0 + 10000]"
    by (simp add: dues_def page_load_def)
  have t: "fire e CheckConnectivity s =
        checkConnectivity (s\<lparr>timers := remove1 (d, CheckConnectivity) (timers s) @ [(d + 10000, CheckConnectivity)]\<rparr>) \<and>
      dues CheckConnectivity (fire e CheckConnectivity s) = [d + 10000]"
    if "dues CheckConnectivity s = [d] \<and> d \<le> now s"
  proof -
    from that have a: "dues CheckConnectivity s = [d]" and b: "d \<le> now s" by simp_all
    have "fire e CheckConnectivity s =
        checkConnectivity (s\<lparr>timers := remove1 (d, CheckConnectivity) (timers s) @ [(d + 10000, CheckConnectivity)]\<rparr>)"
      using fire_single [OF a b, of e] by (simp add: period_def run_task_def)
    then show ?thesis by (simp add: dues_checkConnectivity dues_rearm [OF a])
  qed
  from r h f p t show ?thesis by blast
qed

theorem connectivity_check_witness:
  "online registered \<and> peer_healthy registered \<and>
   online lapsed \<and> \<not> peer_healthy lapsed \<and>
   dues CheckConnectivity lapsed = [10000] \<and> 10000 \<le> now lapsed \<and>
   peer (checkConnectivity lapsed) = Some \<lparr>peer_id = None, disconnected = False\<rparr> \<and>
   dues CheckConnectivity (fire quiet CheckConnectivity lapsed) = [20000] \<and>
   \<not> online offline_unregistered \<and>
   peer (checkConnectivity offline_unregistered) = peer offline_unregistered"
proof -
  have a: "online registered \<and> peer_healthy registered"
    by code_simp
  have b: "online lapsed \<and> \<not> peer_healthy lapsed"
    by code_simp
  have c: "dues CheckConnectivity lapsed = [10000] \<and> 10000 \<le> now lapsed"
    by code_simp
  have d: "\<not> online offline_unregistered"
    by code_simp
  have p: "peer (checkConnectivity lapsed) = Some \<lparr>peer_id = None, disconnected = False\<rparr>"
    using b connectivity_check [where s = lapsed] by blast
  have f: "dues CheckConnectivity (fire quiet CheckConnectivity lapsed) = [10000 + 10000]"
    using c connectivity_check [where s = lapsed and d = 10000 and e = quiet] by blast
  have q: "peer (checkConnectivity offline_unregistered) = peer offline_unregistered"
    using d connectivity_check [where s = offline_unregistered] by blast
  from a b c d p f q show ?thesis by simp
qed

text \<open>
  Claim C10 as stated fails while the browser is offline: the registration is
  disconnected, the interval fires, and the registration is neither destroyed nor
  replaced.
\<close>

theorem connectivity_check_counterexample:
  "\<not> peer_healthy offline_unregistered \<and>
   peer offline_unregistered = Some \<lparr>peer_id = Some ''me'', disconnected = True\<rparr> \<and>
   dues CheckConnectivity offline_unregistered = [10000] \<and> now offline_unregistered = 10000 \<and>
   dues CheckConnectivity (step quiet (Fire CheckConnectivity) offline_unregistered) = [20000] \<and>
   peer (step quiet (Fire CheckConnectivity) offline_unregistered) = peer offline_unregistered \<and>
   libLog (step quiet (Fire CheckConnectivity) offline_unregistered) =
     libLog offline_unregistered"
  by code_simp

section \<open>Screen sharing: the flag and the in-place path\<close>

text \<open>
  Claim C9.  When the stream switch does not throw and the in-place branch is taken, the
  function returns with \<open>isScreenSharing\<close> as it was, although the local stream and the
  local preview have been switched; on every other path after the switch the flag is
  flipped.  Leaving screen sharing switches to the camera stream; entering it switches to
  a fresh stream whose first track is the new, enabled screen video track.
\<close>

theorem screen_share_flag:
  "(switch_source d s = Inr s1 \<and> inplace s1 \<longrightarrow>
      isScreenSharing (toggleScreenShare e d s) = isScreenSharing s \<and>
      localStream (toggleScreenShare e d s) = localStream s1 \<and>
      localVideo (toggleScreenShare e d s) = localStream s1) \<and>
   (switch_source d s = Inr s1 \<and> \<not> inplace s1 \<longrightarrow>
      isScreenSharing (toggleScreenShare e d s) = (\<not> isScreenSharing s)) \<and>
   (isScreenSharing s \<longrightarrow>
      (\<exists>s1. switch_source d s = Inr s1 \<and> localStream s1 = originalStream s)) \<and>
   (\<not> isScreenSharing s \<longrightarrow>
      (\<exists>s1. switch_source DisplayGranted s = Inr s1 \<and>
            map_option hd (localStream s1) = Some (length (tracks s)) \<and>
            lookup (tracks s1) (length (tracks s)) = Some \<lparr>kind = Video, enabled = True\<rparr>))"
proof -
  have a: "isScreenSharing (toggleScreenShare e d s) = isScreenSharing s \<and>
      localStream (toggleScreenShare e d s) = localStream s1 \<and>
      localVideo (toggleScreenShare e d s) = localStream s1"
    if "switch_source d s = Inr s1 \<and> inplace s1"
  proof -
    from that have t: "toggleScreenShare e d s = update_call e s1" and i: "inplace s1"
      by (simp_all add: toggleScreenShare_def)
    from update_call_inplace [OF i, of e] obtain c k t where
      "update_call e s1 = s1\<lparr>localVideo := localStream s1,
               pendingReplace := pendingReplace s1 @ [(c, k, t)],
               libLog := libLog s1 @ [LibReplaceTrack c k t]\<rparr>" by blast
    with t switch_source_sharing [of d s s1] that show ?thesis by simp
  qed
  have b: "isScreenSharing (toggleScreenShare e d s) = (\<not> isScreenSharing s)"
    if "switch_source d s = Inr s1 \<and> \<not> inplace s1"
    using that switch_source_sharing [of d s s1]
    by (simp add: toggleScreenShare_def update_call_flag)
  have c: "isScreenSharing s \<longrightarrow>
      (\<exists>s1. switch_source d s = Inr s1 \<and> localStream s1 = originalStream s)"
    by (simp add: switch_source_def showNotification_def setTimer_def)
  have g: "\<not> isScreenSharing s \<longrightarrow>
      (\<exists>s1. switch_source DisplayGranted s = Inr s1 \<and>
            map_option hd (localStream s1) = Some (length (tracks s)) \<and>
            lookup (tracks s1) (length (tracks s)) = Some \<lparr>kind = Video, enabled = True\<rparr>)"
    by (simp add: switch_source_def showNotification_def setTimer_def Let_def lookup_def)
  from a b c g show ?thesis by blast
qed

theorem screen_share_flag_witness:
  "inplace (switched DisplayGranted in_call) \<and>
   isScreenSharing (toggleScreenShare quiet DisplayGranted in_call) = False \<and>
   map_option hd (localStream (toggleScreenShare quiet DisplayGranted in_call)) = Some 2 \<and>
   \<not> inplace (switched DisplayGranted in_call_plain) \<and>
   isScreenSharing (toggleScreenShare quiet DisplayGranted in_call_plain) = True \<and>
   isScreenSharing video_off_then_share \<and>
   localStream (switched DisplayGranted video_off_then_share) = Some [0, 1] \<and>
   lookup (tracks (switched DisplayGranted in_call)) 2 = Some \<lparr>kind = Video, enabled = True\<rparr>"
proof -
  have a: "inplace (switched DisplayGranted in_call) \<and> isScreenSharing in_call = False \<and>
           map_option hd (localStream (switched DisplayGranted in_call)) = Some 2"
    by code_simp
  have b: "\<not> inplace (switched DisplayGranted in_call_plain) \<and>
           isScreenSharing in_call_plain = False"
    by code_simp
  have a': "switch_source DisplayGranted in_call = Inr (switched DisplayGranted in_call)"
    by (simp add: switch_source_switched)
  have b': "switch_source DisplayGranted in_call_plain =
              Inr (switched DisplayGranted in_call_plain)"
    by (simp add: switch_source_switched)
  have c: "isScreenSharing video_off_then_share \<and>
           originalStream video_off_then_share = Some [0, 1] \<and> length (tracks in_call) = 2"
    by code_simp
  have c': "localStream (switched DisplayGranted video_off_then_share) =
              originalStream video_off_then_share"
    using c switch_source_switched [of video_off_then_share DisplayGranted]
      screen_share_flag [where s = video_off_then_share and d = DisplayGranted]
    by auto
  have d': "lookup (tracks (switched DisplayGranted in_call)) (length (tracks in_call)) =
              Some \<lparr>kind = Video, enabled = True\<rparr>"
    using a a' screen_share_flag [where s = in_call and d = DisplayGranted]
    by auto
  from a a' b b' c c' d'
    screen_share_flag [where s = in_call and d = DisplayGranted and e = quiet
      and ?s1.0 = "switched DisplayGranted in_call"]
    screen_share_flag [where s = in_call_plain and d = DisplayGranted and e = quiet
      and ?s1.0 = "switched DisplayGranted in_call_plain"]
  show ?thesis by simp
qed

section \<open>Switching the media source during a call\<close>

text \<open>
  Claim C7, as the code has it.  On the in-place branch the current call and the call
  store are untouched: only the preview, the pending \<open>replaceTrack\<close> and the log
  change, and a fulfilled \<open>replaceTrack\<close> closes no handle, changes no remote and
  schedules no re-dial.  On the fallback branch, and when \<open>replaceTrack\<close> is rejected,
  replaceCallWithNewStream closes the current handle and schedules exactly one re-dial
  to the same remote 1000 ms later.  When that re-dial gets a handle, it is a fresh
  handle to the same remote whose outbound stream is the local stream of that moment,
  it becomes the current call, handleCallStream arms a timeout and a health check of its
  own for it, and its remote stream reports Connected; when it gets none,
  no call is installed and the failure is reported.
\<close>

theorem source_switch:
  "(inplace s \<longrightarrow>
      (\<exists>c k t. currentCall s = Some c \<and> first_track Video s = Some t \<and>
         update_call e s =
           s\<lparr>localVideo := localStream s, pendingReplace := pendingReplace s @ [(c, k, t)],
             libLog := libLog s @ [LibReplaceTrack c k t]\<rparr>)) \<and>
   (pendingReplace s = (c, k, t) # rest \<longrightarrow>
      currentCall (replace_settled e True s) = currentCall s \<and>
      map closed (calls (replace_settled e True s)) = map closed (calls s) \<and>
      map remote (calls (replace_settled e True s)) = map remote (calls s) \<and>
      redials (replace_settled e True s) = redials s \<and>
      replace_settled e False s = replaceCallWithNewStream e (s\<lparr>pendingReplace := rest\<rparr>)) \<and>
   (fallback s \<longrightarrow>
      update_call e s =
        flip_sharing (replaceCallWithNewStream e (s\<lparr>localVideo := localStream s\<rparr>))) \<and>
   (currentCall s = Some c \<and> lookup (calls s) c = Some co \<longrightarrow>
      calls (replaceCallWithNewStream e s) = (calls s)[c := co\<lparr>closed := True\<rparr>] \<and>
      redials (replaceCallWithNewStream e s) =
        redials s @ [(now s + 1000, ReplaceRedial (remote co))] \<and>
      libLog (replaceCallWithNewStream e s) = libLog s @ [LibClose c]) \<and>
   (peer s \<noteq> None \<and> localStream s = Some st \<and> callSucceeds e \<longrightarrow>
      currentCall (replace_redial_cb e pid s) = Some (length (calls s)) \<and>
      calls (replace_redial_cb e pid s) =
        calls s @ [\<lparr>remote = pid, closed = False, timestamp = None, peerConnection = None,
                     outbound = st\<rparr>] \<and>
      libLog (replace_redial_cb e pid s) = libLog s @ [LibCall pid] \<and>
      timers (replace_redial_cb e pid s) =
        timers s @ [(now s + 30000, ConnectionTimeout (length (calls s))),
                    (now s + 5000, ConnectionCheck (length (calls s)))] \<and>
      statusClass (on_stream (length (calls s)) rs (replace_redial_cb e pid s)) =
        StatusConnected \<and>
      currentCall (on_stream (length (calls s)) rs (replace_redial_cb e pid s)) =
        Some (length (calls s))) \<and>
   (peer s = None \<or> localStream s = None \<or> \<not> callSucceeds e \<longrightarrow>
      calls (replace_redial_cb e pid s) = calls s \<and>
      currentCall (replace_redial_cb e pid s) = currentCall s \<and>
      statusText (replace_redial_cb e pid s) = ''Failed to update call with screen share'' \<and>
      statusClass (replace_redial_cb e pid s) = StatusDisconnected)"
proof -
  have a: "inplace s \<longrightarrow>
      (\<exists>c k t. currentCall s = Some c \<and> first_track Video s = Some t \<and>
         update_call e s =
           s\<lparr>localVideo := localStream s, pendingReplace := pendingReplace s @ [(c, k, t)],
             libLog := libLog s @ [LibReplaceTrack c k t]\<rparr>)"
    using update_call_inplace by blast
  have b: "pendingReplace s = (c, k, t) # rest \<longrightarrow>
      currentCall (replace_settled e True s) = currentCall s \<and>
      map closed (calls (replace_settled e True s)) = map closed (calls s) \<and>
      map remote (calls (replace_settled e True s)) = map remote (calls s) \<and>
      redials (replace_settled e True s) = redials s \<and>
      replace_settled e False s = replaceCallWithNewStream e (s\<lparr>pendingReplace := rest\<rparr>)"
    using replace_settled_fulfilled [of s c k t rest e] replace_settled_rejected [of s c k t rest e]
    by blast
  have f: "fallback s \<longrightarrow>
      update_call e s =
        flip_sharing (replaceCallWithNewStream e (s\<lparr>localVideo := localStream s\<rparr>))"
    using update_call_fallback by blast
  have r: "currentCall s = Some c \<and> lookup (calls s) c = Some co \<longrightarrow>
      calls (replaceCallWithNewStream e s) = (calls s)[c := co\<lparr>closed := True\<rparr>] \<and>
      redials (replaceCallWithNewStream e s) =
        redials s @ [(now s + 1000, ReplaceRedial (remote co))] \<and>
      libLog (replaceCallWithNewStream e s) = libLog s @ [LibClose c]"
    using replaceCallWithNewStream_effect [of s c co e] by blast
  have g: "peer s \<noteq> None \<and> localStream s = Some st \<and> callSucceeds e \<longrightarrow>
      currentCall (replace_redial_cb e pid s) = Some (length (calls s)) \<and>
      calls (replace_redial_cb e pid s) =
        calls s @ [\<lparr>remote = pid, closed = False, timestamp = None, peerConnection = None,
                     outbound = st\<rparr>] \<and>
      libLog (replace_redial_cb e pid s) = libLog s @ [LibCall pid] \<and>
      timers (replace_redial_cb e pid s) =
        timers s @ [(now s + 30000, ConnectionTimeout (length (calls s))),
                    (now s + 5000, ConnectionCheck (length (calls s)))] \<and>
      statusClass (on_stream (length (calls s)) rs (replace_redial_cb e pid s)) =
        StatusConnected \<and>
      currentCall (on_stream (length (calls s)) rs (replace_redial_cb e pid s)) =
        Some (length (calls s))"
    by (simp add: replace_redial_timers) (simp add: replace_redial_success on_stream_connected)
  have n: "peer s = None \<or> localStream s = None \<or> \<not> callSucceeds e \<longrightarrow>
      calls (replace_redial_cb e pid s) = calls s \<and>
      currentCall (replace_redial_cb e pid s) = currentCall s \<and>
      statusText (replace_redial_cb e pid s) = ''Failed to update call with screen share'' \<and>
      statusClass (replace_redial_cb e pid s) = StatusDisconnected"
    using replace_redial_failure [of s e pid] by blast
  from a b f r g n show ?thesis by blast
qed

theorem source_switch_witness:
  "inplace (switched DisplayGranted in_call) \<and>
   pendingReplace (toggleScreenShare quiet DisplayGranted in_call) = [(0, 1, 2)] \<and>
   currentCall (replace_settled quiet True (toggleScreenShare quiet DisplayGranted in_call)) =
     Some 0 \<and>
   map closed (calls (replace_settled quiet True
     (toggleScreenShare quiet DisplayGranted in_call))) = [False] \<and>
   fallback (switched DisplayGranted in_call_plain) \<and>
   redials (replaceCallWithNewStream quiet in_call_plain) = [(1000, ReplaceRedial (js ''bob''))] \<and>
   currentCall (replace_redial_cb quiet (js ''bob'') sharing_plain) = Some 1 \<and>
   timers (replace_redial_cb quiet (js ''bob'') sharing_plain) =
     timers sharing_plain @ [(31000, ConnectionTimeout 1), (6000, ConnectionCheck 1)] \<and>
   statusClass (on_stream 1 [] (replace_redial_cb quiet (js ''bob'') sharing_plain)) =
     StatusConnected \<and>
   statusClass (replace_redial_cb refusing (js ''bob'') sharing_plain) = StatusDisconnected"
proof -
  have i: "inplace (switched DisplayGranted in_call)"
    by code_simp
  have p: "pendingReplace (toggleScreenShare quiet DisplayGranted in_call) = [(0, 1, 2)] \<and>
           currentCall (toggleScreenShare quiet DisplayGranted in_call) = Some 0 \<and>
           map closed (calls (toggleScreenShare quiet DisplayGranted in_call)) = [False]"
    by code_simp
  have f: "fallback (switched DisplayGranted in_call_plain)"
    by code_simp
  have c: "currentCall in_call_plain = Some 0 \<and>
           lookup (calls in_call_plain) 0 =
             Some \<lparr>remote = js ''bob'', closed = False, timestamp = Some 0,
                    peerConnection = None, outbound = [0, 1]\<rparr> \<and>
           redials in_call_plain = [] \<and> now in_call_plain = 0"
    by code_simp
  have g: "peer sharing_plain \<noteq> None \<and> localStream sharing_plain = Some [2, 0] \<and>
           callSucceeds quiet \<and> \<not> callSucceeds refusing \<and> length (calls sharing_plain) = 1 \<and>
           now sharing_plain = 1000"
    by code_simp
  have 1: "\<exists>c k t. currentCall (switched DisplayGranted in_call) = Some c \<and>
             first_track Video (switched DisplayGranted in_call) = Some t \<and>
             update_call quiet (switched DisplayGranted in_call) =
               (switched DisplayGranted in_call)
                 \<lparr>localVideo := localStream (switched DisplayGranted in_call),
                  pendingReplace := pendingReplace (switched DisplayGranted in_call) @ [(c, k, t)],
                  libLog := libLog (switched DisplayGranted in_call) @ [LibReplaceTrack c k t]\<rparr>"
    using i source_switch [where s = "switched DisplayGranted in_call" and e = quiet] by blast
  have 2: "currentCall (replace_settled quiet True
             (toggleScreenShare quiet DisplayGranted in_call)) = Some 0 \<and>
           map closed (calls (replace_settled quiet True
             (toggleScreenShare quiet DisplayGranted in_call))) = [False]"
    using p source_switch [where s = "toggleScreenShare quiet DisplayGranted in_call"
      and e = quiet and c = 0 and k = 1 and t = 2 and rest = "[]"] by simp
  have 3: "update_call quiet (switched DisplayGranted in_call_plain) =
             flip_sharing (replaceCallWithNewStream quiet
               ((switched DisplayGranted in_call_plain)
                  \<lparr>localVideo := localStream (switched DisplayGranted in_call_plain)\<rparr>))"
    using f source_switch [where s = "switched DisplayGranted in_call_plain" and e = quiet]
    by blast
  have 4: "redials (replaceCallWithNewStream quiet in_call_plain) =
             [(1000, ReplaceRedial (js ''bob''))]"
    using c source_switch [where s = in_call_plain and e = quiet and c = 0
      and co = "\<lparr>remote = js ''bob'', closed = False, timestamp = Some 0,
                  peerConnection = None, outbound = [0, 1]\<rparr>"] by simp
  have 5: "currentCall (replace_redial_cb quiet (js ''bob'') sharing_plain) = Some 1 \<and>
           timers (replace_redial_cb quiet (js ''bob'') sharing_plain) =
             timers sharing_plain @ [(31000, ConnectionTimeout 1), (6000, ConnectionCheck 1)] \<and>
           statusClass (on_stream 1 [] (replace_redial_cb quiet (js ''bob'') sharing_plain)) =
             StatusConnected"
    using g source_switch [where s = sharing_plain and e = quiet and st = "[2, 0]"
      and pid = "js ''bob''" and rs = "[]"] by simp
  have 6: "statusClass (replace_redial_cb refusing (js ''bob'') sharing_plain) = StatusDisconnected"
    using g source_switch [where s = sharing_plain and e = refusing and pid = "js ''bob''"] by blast
  from i p f 2 4 5 6 show ?thesis by simp
qed

text \<open>
  Claim C7 as stated fails when the fallback re-dial gets no handle (here the signaling
  connection was lost in the meantime): the old handle is closed, no new one is installed,
  and the session ends disconnected instead of Connected.
\<close>

theorem source_switch_counterexample:
  "statusClass in_call_plain = StatusConnected \<and> currentCall in_call_plain = Some 0 \<and>
   map closed (calls share_redial_fails) = [True] \<and>
   statusClass share_redial_fails = StatusDisconnected \<and>
   statusText share_redial_fails = ''Failed to update call with screen share''"
  by code_simp

section \<open>The connection-establishment timeout\<close>

text \<open>
  Claim C6, as the code has it.  handleCallStream arms the timeout 30000 ms ahead, and
  each of the four sites that install a call runs it on the fresh handle: the dial, the
  answer to an inbound call, the re-dial after a stall and the re-dial after a source
  switch.  A timer does not fire before it is due.  A remote stream on the call clears the timeout
  and reports Connected.  When the timeout fires, the callback looks at the remote video
  element, not at the call: if the element holds no stream, the handle is closed, the
  current-call reference is cleared and the timeout is reported; if the element holds a
  stream, the callback does nothing.
\<close>

theorem connection_timeout:
  "dues (ConnectionTimeout c) (handleCallStream c s) =
     dues (ConnectionTimeout c) s @ [now s + 30000] \<and>
   (trim (peerIdInput s) \<noteq> [] \<and> peer_ready s \<and> localStream s \<noteq> None \<and> callSucceeds e \<longrightarrow>
      currentCall (connectToPeer e s) = Some (length (calls s)) \<and>
      (now s + 30000, ConnectionTimeout (length (calls s))) \<in> set (timers (connectToPeer e s))) \<and>
   currentCall (on_peer_call rid ts s) = Some (length (calls s)) \<and>
   (now s + 30000, ConnectionTimeout (length (calls s))) \<in> set (timers (on_peer_call rid ts s)) \<and>
   (peer_ready s \<and> localStream s = Some st \<and> callSucceeds e \<longrightarrow>
      currentCall (stall_redial_cb e pid s) = Some (length (calls s)) \<and>
      (now s + 30000, ConnectionTimeout (length (calls s)))
        \<in> set (timers (stall_redial_cb e pid s))) \<and>
   (peer s \<noteq> None \<and> localStream s = Some st \<and> callSucceeds e \<longrightarrow>
      currentCall (replace_redial_cb e pid s) = Some (length (calls s)) \<and>
      (now s + 30000, ConnectionTimeout (length (calls s)))
        \<in> set (timers (replace_redial_cb e pid s))) \<and>
   dues (ConnectionTimeout c) (on_stream c rs s) = [] \<and>
   statusText (on_stream c rs s) = ''Connected'' \<and>
   statusClass (on_stream c rs s) = StatusConnected \<and>
   remoteVideo (on_stream c rs s) = Some (enable_first Audio (enable_first Video rs)) \<and>
   ((\<forall>d\<in>set (dues (ConnectionTimeout c) s). now s < d) \<longrightarrow>
      fire e (ConnectionTimeout c) s = s) \<and>
   (dues (ConnectionTimeout c) s = [d] \<and> d \<le> now s \<longrightarrow>
      fire e (ConnectionTimeout c) s =
        connectionTimeout_cb e c (s\<lparr>timers := remove1 (d, ConnectionTimeout c) (timers s)\<rparr>)) \<and>
   (remoteVideo s = None \<and> lookup (calls s) c = Some co \<longrightarrow>
      calls (connectionTimeout_cb e c s) = (calls s)[c := co\<lparr>closed := True\<rparr>] \<and>
      currentCall (connectionTimeout_cb e c s) = None \<and>
      endCallDisabled (connectionTimeout_cb e c s) \<and>
      (''Connection timed out. The other user may not be available.'', SevError)
        \<in> set (notifications (connectionTimeout_cb e c s))) \<and>
   (remoteVideo s \<noteq> None \<longrightarrow> connectionTimeout_cb e c s = s)"
proof -
  have a: "dues (ConnectionTimeout c) (handleCallStream c s) =
     dues (ConnectionTimeout c) s @ [now s + 30000]"
    by (rule handleCallStream_dues)
  have b: "trim (peerIdInput s) \<noteq> [] \<and> peer_ready s \<and> localStream s \<noteq> None \<and> callSucceeds e \<longrightarrow>
      currentCall (connectToPeer e s) = Some (length (calls s)) \<and>
      (now s + 30000, ConnectionTimeout (length (calls s))) \<in> set (timers (connectToPeer e s))"
    using connectToPeer_session [of s e] by blast
  have p: "currentCall (on_peer_call rid ts s) = Some (length (calls s)) \<and>
   (now s + 30000, ConnectionTimeout (length (calls s))) \<in> set (timers (on_peer_call rid ts s))"
    by (simp add: on_peer_call_session)
  have x: "peer_ready s \<and> localStream s = Some st \<and> callSucceeds e \<longrightarrow>
      currentCall (stall_redial_cb e pid s) = Some (length (calls s)) \<and>
      (now s + 30000, ConnectionTimeout (length (calls s)))
        \<in> set (timers (stall_redial_cb e pid s))"
    by (simp add: stall_redial_timers) (simp add: stall_redial_success)
  have y: "peer s \<noteq> None \<and> localStream s = Some st \<and> callSucceeds e \<longrightarrow>
      currentCall (replace_redial_cb e pid s) = Some (length (calls s)) \<and>
      (now s + 30000, ConnectionTimeout (length (calls s)))
        \<in> set (timers (replace_redial_cb e pid s))"
    by (simp add: replace_redial_timers) (simp add: replace_redial_success)
  have o: "dues (ConnectionTimeout c) (on_stream c rs s) = [] \<and>
   statusText (on_stream c rs s) = ''Connected'' \<and>
   statusClass (on_stream c rs s) = StatusConnected \<and>
   remoteVideo (on_stream c rs s) = Some (enable_first Audio (enable_first Video rs))"
    by (simp add: on_stream_dues on_stream_connected)
  have w: "(\<forall>d\<in>set (dues (ConnectionTimeout c) s). now s < d) \<longrightarrow>
      fire e (ConnectionTimeout c) s = s"
    using fire_not_due by blast
  have f: "dues (ConnectionTimeout c) s = [d] \<and> d \<le> now s \<longrightarrow>
      fire e (ConnectionTimeout c) s =
        connectionTimeout_cb e c (s\<lparr>timers := remove1 (d, ConnectionTimeout c) (timers s)\<rparr>)"
    using fire_single [of "ConnectionTimeout c" s d e] by (simp add: period_def run_task_def)
  have t: "remoteVideo s = None \<and> lookup (calls s) c = Some co \<longrightarrow>
      calls (connectionTimeout_cb e c s) = (calls s)[c := co\<lparr>closed := True\<rparr>] \<and>
      currentCall (connectionTimeout_cb e c s) = None \<and>
      endCallDisabled (connectionTimeout_cb e c s) \<and>
      (''Connection timed out. The other user may not be available.'', SevError)
        \<in> set (notifications (connectionTimeout_cb e c s))"
    using connectionTimeout_cb_effect [of s c co e] by blast
  have n: "remoteVideo s \<noteq> None \<longrightarrow> connectionTimeout_cb e c s = s"
    by (simp add: connectionTimeout_cb_def)
  from a b p x y o w f t n show ?thesis by blast
qed

theorem connection_timeout_witness:
  "currentCall (connectToPeer quiet ready_to_dial) = Some 0 \<and>
   dues (ConnectionTimeout 0) (connectToPeer quiet ready_to_dial) = [30000] \<and>
   fire quiet (ConnectionTimeout 0) (connectToPeer quiet ready_to_dial) =
     connectToPeer quiet ready_to_dial \<and>
   remoteVideo unanswered = None \<and>
   currentCall (fire quiet (ConnectionTimeout 0) unanswered) = None \<and>
   map closed (calls (fire quiet (ConnectionTimeout 0) unanswered)) = [True] \<and>
   remoteVideo in_call \<noteq> None \<and> connectionTimeout_cb quiet 0 in_call = in_call \<and>
   currentCall (stall_redial_cb quiet (js ''bob'') stall_detected) = Some 1 \<and>
   (47000, ConnectionTimeout 1) \<in> set (timers (stall_redial_cb quiet (js ''bob'') stall_detected)) \<and>
   currentCall (replace_redial_cb quiet (js ''bob'') sharing_plain) = Some 1 \<and>
   (31000, ConnectionTimeout 1)
     \<in> set (timers (replace_redial_cb quiet (js ''bob'') sharing_plain))"
proof -
  let ?co = "\<lparr>remote = js ''bob'', closed = False, timestamp = Some 0, peerConnection = None,
               outbound = [0, 1]\<rparr>"
  let ?u = "unanswered\<lparr>timers := remove1 (30000, ConnectionTimeout 0) (timers unanswered)\<rparr>"
  have h: "trim (peerIdInput ready_to_dial) \<noteq> [] \<and> peer_ready ready_to_dial \<and>
           localStream ready_to_dial \<noteq> None \<and> callSucceeds quiet \<and>
           length (calls ready_to_dial) = 0"
    by code_simp
  have d: "dues (ConnectionTimeout 0) (connectToPeer quiet ready_to_dial) = [30000] \<and>
           now (connectToPeer quiet ready_to_dial) = 0"
    by code_simp
  have u: "dues (ConnectionTimeout 0) unanswered = [30000] \<and> 30000 \<le> now unanswered \<and>
           remoteVideo unanswered = None \<and> lookup (calls unanswered) 0 = Some ?co"
    by code_simp
  have uc: "calls unanswered = [?co]"
    by code_simp
  have i: "remoteVideo in_call \<noteq> None"
    by code_simp
  have 1: "currentCall (connectToPeer quiet ready_to_dial) = Some 0"
    using h connection_timeout [where s = ready_to_dial and e = quiet] by simp
  have 2: "fire quiet (ConnectionTimeout 0) (connectToPeer quiet ready_to_dial) =
             connectToPeer quiet ready_to_dial"
    using d connection_timeout [where s = "connectToPeer quiet ready_to_dial" and e = quiet
      and c = 0] by simp
  have 3: "fire quiet (ConnectionTimeout 0) unanswered = connectionTimeout_cb quiet 0 ?u"
    using u connection_timeout [where s = unanswered and e = quiet and c = 0 and d = 30000]
    by blast
  from u have u': "remoteVideo ?u = None \<and> lookup (calls ?u) 0 = Some ?co"
    by simp
  have 4: "calls (connectionTimeout_cb quiet 0 ?u) = (calls ?u)[0 := ?co\<lparr>closed := True\<rparr>] \<and>
           currentCall (connectionTimeout_cb quiet 0 ?u) = None"
    using u' connection_timeout [where s = ?u and e = quiet and c = 0 and co = ?co]
    by blast
  have 5: "connectionTimeout_cb quiet 0 in_call = in_call"
    using i connection_timeout [where s = in_call and e = quiet and c = 0] by blast
  have g: "peer_ready stall_detected \<and> localStream stall_detected = Some [0, 1] \<and>
           callSucceeds quiet \<and> length (calls stall_detected) = 1 \<and>
           now stall_detected = 17000"
    by code_simp
  have k: "peer sharing_plain \<noteq> None \<and> localStream sharing_plain = Some [2, 0] \<and>
           length (calls sharing_plain) = 1 \<and> now sharing_plain = 1000"
    by code_simp
  have 6: "currentCall (stall_redial_cb quiet (js ''bob'') stall_detected) =
             Some (length (calls stall_detected)) \<and>
           (now stall_detected + 30000, ConnectionTimeout (length (calls stall_detected)))
             \<in> set (timers (stall_redial_cb quiet (js ''bob'') stall_detected))"
    using g connection_timeout [where s = stall_detected and e = quiet and st = "[0, 1]"
      and pid = "js ''bob''"] by blast
  have 7: "currentCall (replace_redial_cb quiet (js ''bob'') sharing_plain) =
             Some (length (calls sharing_plain)) \<and>
           (now sharing_plain + 30000, ConnectionTimeout (length (calls sharing_plain)))
             \<in> set (timers (replace_redial_cb quiet (js ''bob'') sharing_plain))"
    using g k connection_timeout [where s = sharing_plain and e = quiet and st = "[2, 0]"
      and pid = "js ''bob''"] by blast
  from g k 6 7 have 8:
    "currentCall (stall_redial_cb quiet (js ''bob'') stall_detected) = Some 1 \<and>
     (47000, ConnectionTimeout 1)
       \<in> set (timers (stall_redial_cb quiet (js ''bob'') stall_detected)) \<and>
     currentCall (replace_redial_cb quiet (js ''bob'') sharing_plain) = Some 1 \<and>
     (31000, ConnectionTimeout 1)
       \<in> set (timers (replace_redial_cb quiet (js ''bob'') sharing_plain))"
    by simp
  from d u uc i 1 2 3 4 5 have 9:
    "currentCall (connectToPeer quiet ready_to_dial) = Some 0 \<and>
     dues (ConnectionTimeout 0) (connectToPeer quiet ready_to_dial) = [30000] \<and>
     fire quiet (ConnectionTimeout 0) (connectToPeer quiet ready_to_dial) =
       connectToPeer quiet ready_to_dial \<and>
     remoteVideo unanswered = None \<and>
     currentCall (fire quiet (ConnectionTimeout 0) unanswered) = None \<and>
     map closed (calls (fire quiet (ConnectionTimeout 0) unanswered)) = [True] \<and>
     remoteVideo in_call \<noteq> None \<and> connectionTimeout_cb quiet 0 in_call = in_call"
    by simp
  from 8 9 show ?thesis by blast
qed

text \<open>
  Claim C6 as stated fails for a pending call behind a connected one: the first call's
  stream is still in the remote video element, the inbound call is answered and becomes
  the current call, no stream arrives on it, and when its timeout fires after 30000 ms
  the callback sees the other call's stream and leaves the pending call open.
\<close>

theorem connection_timeout_counterexample:
  "map closed (calls pending_behind_stream) = [False, False] \<and>
   currentCall pending_behind_stream = Some 1 \<and>
   dues (ConnectionTimeout 1) pending_behind_stream = [] \<and>
   statusText pending_behind_stream = ''Incoming call...''"
  by code_simp

section \<open>The health check and the stall re-dial\<close>

text \<open>
  Claim C5, as the code has it.  handleCallStream arms the check 5000 ms ahead and each
  firing re-arms it 5000 ms after its due time.  A check of a call that is not the
  current call only cancels itself.  For the current call, when the remote video element
  is empty, the call's metadata carries a timestamp more than 10000 ms old and the ICE
  state is failed, the check closes the handle, schedules exactly one re-dial to the same
  remote 2000 ms later and cancels itself; otherwise it changes nothing.  The re-dial does
  nothing unless the registration has an identity; when \<open>peer.call\<close> then yields a
  handle, that fresh handle (without metadata) becomes the current call and
  handleCallStream arms a timeout and a health check of its own for it.
\<close>

theorem stall_recovery:
  "dues (ConnectionCheck c) (handleCallStream c s) = dues (ConnectionCheck c) s @ [now s + 5000] \<and>
   ((\<forall>d\<in>set (dues (ConnectionCheck c) s). now s < d) \<longrightarrow> fire e (ConnectionCheck c) s = s) \<and>
   (dues (ConnectionCheck c) s = [d] \<and> d \<le> now s \<longrightarrow>
      fire e (ConnectionCheck c) s =
        connectionCheck_cb e c
          (s\<lparr>timers := remove1 (d, ConnectionCheck c) (timers s) @
                          [(d + 5000, ConnectionCheck c)]\<rparr>)) \<and>
   (currentCall s \<noteq> Some c \<longrightarrow>
      connectionCheck_cb e c s = s\<lparr>timers := clearTimer (ConnectionCheck c) (timers s)\<rparr>) \<and>
   (currentCall s = Some c \<and> \<not> (stalled c s \<and> ice_failed c s) \<longrightarrow>
      connectionCheck_cb e c s = s) \<and>
   (currentCall s = Some c \<and> lookup (calls s) c = Some co \<and> remoteVideo s = None \<and>
    timestamp co = Some ts \<and> now s - ts > 10000 \<and>
    peerConnection co = Some pc \<and> iceConnectionState pc = IceFailed \<longrightarrow>
      calls (connectionCheck_cb e c s) = (calls s)[c := co\<lparr>closed := True\<rparr>] \<and>
      redials (connectionCheck_cb e c s) =
        redials s @ [(now s + 2000, StallRedial (remote co))] \<and>
      dues (ConnectionCheck c) (connectionCheck_cb e c s) = [] \<and>
      libLog (connectionCheck_cb e c s) = libLog s @ [LibClose c]) \<and>
   (peer_ready s \<and> localStream s = Some st \<and> callSucceeds e \<longrightarrow>
      currentCall (stall_redial_cb e pid s) = Some (length (calls s)) \<and>
      calls (stall_redial_cb e pid s) =
        calls s @ [\<lparr>remote = pid, closed = False, timestamp = None, peerConnection = None,
                     outbound = st\<rparr>] \<and>
      libLog (stall_redial_cb e pid s) = libLog s @ [LibCall pid] \<and>
      timers (stall_redial_cb e pid s) =
        timers s @ [(now s + 30000, ConnectionTimeout (length (calls s))),
                    (now s + 5000, ConnectionCheck (length (calls s)))]) \<and>
   (\<not> peer_ready s \<longrightarrow> stall_redial_cb e pid s = s)"
proof -
  have a: "dues (ConnectionCheck c) (handleCallStream c s) =
             dues (ConnectionCheck c) s @ [now s + 5000]"
    by (rule handleCallStream_dues)
  have w: "(\<forall>d\<in>set (dues (ConnectionCheck c) s). now s < d) \<longrightarrow>
             fire e (ConnectionCheck c) s = s"
    using fire_not_due by blast
  have f: "dues (ConnectionCheck c) s = [d] \<and> d \<le> now s \<longrightarrow>
      fire e (ConnectionCheck c) s =
        connectionCheck_cb e c
          (s\<lparr>timers := remove1 (d, ConnectionCheck c) (timers s) @
                          [(d + 5000, ConnectionCheck c)]\<rparr>)"
    using fire_single [of "ConnectionCheck c" s d e] by (simp add: period_def run_task_def)
  have n: "currentCall s \<noteq> Some c \<longrightarrow>
      connectionCheck_cb e c s = s\<lparr>timers := clearTimer (ConnectionCheck c) (timers s)\<rparr>"
    by (simp add: connectionCheck_cb_def)
  have q: "currentCall s = Some c \<and> \<not> (stalled c s \<and> ice_failed c s) \<longrightarrow>
      connectionCheck_cb e c s = s"
    by (simp add: connectionCheck_cb_def)
  have t: "currentCall s = Some c \<and> lookup (calls s) c = Some co \<and> remoteVideo s = None \<and>
    timestamp co = Some ts \<and> now s - ts > 10000 \<and>
    peerConnection co = Some pc \<and> iceConnectionState pc = IceFailed \<longrightarrow>
      calls (connectionCheck_cb e c s) = (calls s)[c := co\<lparr>closed := True\<rparr>] \<and>
      redials (connectionCheck_cb e c s) =
        redials s @ [(now s + 2000, StallRedial (remote co))] \<and>
      dues (ConnectionCheck c) (connectionCheck_cb e c s) = [] \<and>
      libLog (connectionCheck_cb e c s) = libLog s @ [LibClose c]"
    using connectionCheck_cb_stall [of s c co ts pc e] by blast
  have g: "peer_ready s \<and> localStream s = Some st \<and> callSucceeds e \<longrightarrow>
      currentCall (stall_redial_cb e pid s) = Some (length (calls s)) \<and>
      calls (stall_redial_cb e pid s) =
        calls s @ [\<lparr>remote = pid, closed = False, timestamp = None, peerConnection = None,
                     outbound = st\<rparr>] \<and>
      libLog (stall_redial_cb e pid s) = libLog s @ [LibCall pid] \<and>
      timers (stall_redial_cb e pid s) =
        timers s @ [(now s + 30000, ConnectionTimeout (length (calls s))),
                    (now s + 5000, ConnectionCheck (length (calls s)))]"
    by (simp add: stall_redial_timers) (simp add: stall_redial_success)
  have h: "\<not> peer_ready s \<longrightarrow> stall_redial_cb e pid s = s"
    by (simp add: stall_redial_cb_def)
  from a w f n q t g h show ?thesis by blast
qed

theorem stall_recovery_witness:
  "dues (ConnectionCheck 0) (connectToPeer quiet ready_to_dial) = [5000] \<and>
   fire quiet (ConnectionCheck 0) (connectToPeer quiet ready_to_dial) =
     connectToPeer quiet ready_to_dial \<and>
   dues (ConnectionCheck 0) stalling = [15000] \<and>
   map closed (calls (fire quiet (ConnectionCheck 0) stalling)) = [True] \<and>
   redials (fire quiet (ConnectionCheck 0) stalling) = [(17000, StallRedial (js ''bob''))] \<and>
   dues (ConnectionCheck 0) (fire quiet (ConnectionCheck 0) stalling) = [] \<and>
   currentCall (stall_redial_cb quiet (js ''bob'') stall_detected) = Some 1 \<and>
   timers (stall_redial_cb quiet (js ''bob'') stall_detected) =
     timers stall_detected @ [(47000, ConnectionTimeout 1), (22000, ConnectionCheck 1)] \<and>
   stall_redial_cb quiet (js ''bob'') (page_load 0) = page_load 0 \<and>
   connectionCheck_cb quiet 0 unanswered = unanswered \<and>
   dues (ConnectionCheck 0) (connectionCheck_cb quiet 0 superseded) = []"
proof -
  let ?co = "\<lparr>remote = js ''bob'', closed = False, timestamp = Some 0,
               peerConnection = Some failed_pc, outbound = [0, 1]\<rparr>"
  let ?r = "stalling\<lparr>timers := remove1 (15000, ConnectionCheck 0) (timers stalling) @
                                   [(15000 + 5000, ConnectionCheck 0)]\<rparr>"
  have d: "dues (ConnectionCheck 0) (connectToPeer quiet ready_to_dial) = [5000] \<and>
           now (connectToPeer quiet ready_to_dial) = 0"
    by code_simp
  have s: "dues (ConnectionCheck 0) stalling = [15000] \<and> 15000 \<le> now stalling"
    by code_simp
  have r: "currentCall stalling = Some 0 \<and> lookup (calls stalling) 0 = Some ?co \<and>
           remoteVideo stalling = None \<and> timestamp ?co = Some 0 \<and> now stalling - 0 > 10000 \<and>
           peerConnection ?co = Some failed_pc \<and> iceConnectionState failed_pc = IceFailed"
    by code_simp
  have rc: "calls stalling = [?co] \<and> now stalling = 15000 \<and> redials stalling = []"
    by code_simp
  have g: "peer_ready stall_detected \<and> localStream stall_detected = Some [0, 1] \<and>
           callSucceeds quiet \<and> length (calls stall_detected) = 1 \<and>
           now stall_detected = 17000"
    by code_simp
  have p: "\<not> peer_ready (page_load 0)"
    by code_simp
  have u: "currentCall unanswered = Some 0 \<and> \<not> (stalled 0 unanswered \<and> ice_failed 0 unanswered)"
    by code_simp
  have v: "currentCall superseded \<noteq> Some 0"
    by code_simp
  have 1: "fire quiet (ConnectionCheck 0) (connectToPeer quiet ready_to_dial) =
             connectToPeer quiet ready_to_dial"
    using d stall_recovery [where s = "connectToPeer quiet ready_to_dial" and e = quiet and c = 0]
    by simp
  have 2: "fire quiet (ConnectionCheck 0) stalling = connectionCheck_cb quiet 0 ?r"
    using s stall_recovery [where s = stalling and e = quiet and c = 0 and d = 15000] by blast
  from r have r': "currentCall ?r = Some 0 \<and> lookup (calls ?r) 0 = Some ?co \<and>
           remoteVideo ?r = None \<and> timestamp ?co = Some 0 \<and> now ?r - 0 > 10000 \<and>
           peerConnection ?co = Some failed_pc \<and> iceConnectionState failed_pc = IceFailed"
    by simp
  have 3: "calls (connectionCheck_cb quiet 0 ?r) = (calls ?r)[0 := ?co\<lparr>closed := True\<rparr>] \<and>
           redials (connectionCheck_cb quiet 0 ?r) =
             redials ?r @ [(now ?r + 2000, StallRedial (remote ?co))] \<and>
           dues (ConnectionCheck 0) (connectionCheck_cb quiet 0 ?r) = []"
    using r' stall_recovery [where s = ?r and e = quiet and c = 0 and co = ?co and ts = 0
      and pc = failed_pc] by blast
  have 4: "currentCall (stall_redial_cb quiet (js ''bob'') stall_detected) =
             Some (length (calls stall_detected)) \<and>
           timers (stall_redial_cb quiet (js ''bob'') stall_detected) =
             timers stall_detected @
               [(now stall_detected + 30000, ConnectionTimeout (length (calls stall_detected))),
                (now stall_detected + 5000, ConnectionCheck (length (calls stall_detected)))]"
    using g stall_recovery [where s = stall_detected and e = quiet and st = "[0, 1]"
      and pid = "js ''bob''"] by blast
  have 5: "stall_redial_cb quiet (js ''bob'') (page_load 0) = page_load 0"
    using p stall_recovery [where s = "page_load 0" and e = quiet and pid = "js ''bob''"] by blast
  have 6: "connectionCheck_cb quiet 0 unanswered = unanswered"
    using u stall_recovery [where s = unanswered and e = quiet and c = 0] by blast
  have 7: "connectionCheck_cb quiet 0 superseded =
             superseded\<lparr>timers := clearTimer (ConnectionCheck 0) (timers superseded)\<rparr>"
    using v stall_recovery [where s = superseded and e = quiet and c = 0] by blast
  have 8: "redials ?r = [] \<and> now ?r = 15000 \<and> calls ?r = [?co]"
    using rc by (simp add: redials_def is_redial_def filter_remove1)
  from d s g 1 2 3 4 5 6 7 8 show ?thesis by (simp add: dues_clearTimer)
qed

text \<open>
  Claim C5 as stated fails for a session that is not the current call: after an inbound
  call has been answered, the dialled session has no remote stream, is 15000 ms old and
  its transport has failed, but its check only cancels itself: the handle stays open and
  no re-dial is scheduled.
\<close>

theorem stall_recovery_counterexample:
  "remoteVideo superseded = None \<and> stalled 0 superseded \<and> ice_failed 0 superseded \<and>
   map closed (calls (step quiet (Fire (ConnectionCheck 0)) superseded)) = [False, False] \<and>
   redials (step quiet (Fire (ConnectionCheck 0)) superseded) = [] \<and>
   dues (ConnectionCheck 0) (step quiet (Fire (ConnectionCheck 0)) superseded) = []"
  by code_simp

section \<open>Dialling and hanging up\<close>

text \<open>
  Claim C1 does not hold of the code.  The timeout callback of a call has no guard on the
  current call: it closes its own handle and clears the current-call reference whichever
  call that reference holds.  The user dials bob and, ten seconds later, dials carol: the
  second dial closes the first handle and makes the second the current call.  Thirty
  seconds after the first dial its timeout fires, the remote video element being empty,
  and clears the current-call reference although the second call is open: one call is
  not closed and the reference holds none, so endCall can no longer close it.  A third
  dial then finds no current call to close, and two calls that are not closed exist at
  the same instant.
\<close>

theorem stale_timeout_two_live:
  "now second_dial_pending = 30000 \<and>
   dues (ConnectionTimeout 0) second_dial_pending = [30000] \<and>
   remoteVideo second_dial_pending = None \<and>
   currentCall second_dial_pending = Some 1 \<and>
   map closed (calls second_dial_pending) = [True, False] \<and>
   single_session second_dial_pending \<and>
   currentCall stale_timeout = None \<and>
   map closed (calls stale_timeout) = [True, False] \<and>
   \<not> single_session stale_timeout \<and>
   map closed (calls (endCall quiet stale_timeout)) = [True, False] \<and>
   currentCall third_dial = Some 2 \<and>
   map remote (calls third_dial) = [js ''bob'', js ''carol'', js ''dave''] \<and>
   map closed (calls third_dial) = [True, False, False] \<and>
   live_count third_dial = 2 \<and>
   \<not> single_session third_dial"
  by code_simp

section \<open>Events that arrive after the session has ended\<close>

text \<open>
  Claim C2 does not hold of the code.  The \<open>stream\<close> handler of a call has no guard:
  after the session has ended by an error event (which leaves the handle open), by
  endCall or by the timeout, a remote stream delivered on the call is attached to the
  remote video element again and the status becomes Connected, while the current-call
  reference stays empty.
\<close>

theorem late_stream_reattaches:
  "currentCall errored = None \<and> remoteVideo errored = None \<and>
   statusClass errored = StatusDisconnected \<and>
   remoteVideo (step quiet (CallStream 0 av_stream) errored) = Some av_stream \<and>
   statusText (step quiet (CallStream 0 av_stream) errored) = ''Connected'' \<and>
   statusClass (step quiet (CallStream 0 av_stream) errored) = StatusConnected \<and>
   currentCall (step quiet (CallStream 0 av_stream) errored) = None \<and>
   currentCall hung_up = None \<and> remoteVideo hung_up = None \<and>
   map closed (calls hung_up) = [True] \<and>
   remoteVideo (step quiet (CallStream 0 av_stream) hung_up) = Some av_stream \<and>
   statusClass (step quiet (CallStream 0 av_stream) hung_up) = StatusConnected \<and>
   currentCall timed_out = None \<and> remoteVideo timed_out = None \<and>
   map closed (calls timed_out) = [True] \<and>
   remoteVideo (step quiet (CallStream 0 av_stream) timed_out) = Some av_stream \<and>
   statusClass (step quiet (CallStream 0 av_stream) timed_out) = StatusConnected"
  by code_simp

text \<open>
  Claim C3 does not hold of the code.  The health check detects the stall, closes the
  handle and schedules the re-dial; the user ends the call; two seconds later the re-dial
  callback, which only checks that the registration has an identity, calls the remote
  again and installs the new handle as the current call.
\<close>

theorem late_redial_installed:
  "redials (run [(quiet, Fire (ConnectionCheck 0))] stalling) = [(17000, StallRedial (js ''bob''))] \<and>
   currentCall ended_after_stall = None \<and>
   map closed (calls ended_after_stall) = [True] \<and>
   statusText ended_after_stall = ''Call ended'' \<and>
   currentCall redial_after_end = Some 1 \<and>
   map closed (calls redial_after_end) = [True, False] \<and>
   map remote (calls redial_after_end) = [js ''bob'', js ''bob''] \<and>
   libLog redial_after_end =
     [LibNewPeer, LibCall (js ''bob''), LibClose 0, LibClose 0, LibCall (js ''bob'')]"
  by code_simp

end
